theory Spec2Isabelle
  imports Main "HOL-Library.Sublist"
begin

section \<open>Strings\<close>

text \<open>
  A JavaScript string is modelled by the list of the bytes of its UTF-8 encoding. Every
  character the program tests for (\<^verbatim>\<open>/\<close>, \<^verbatim>\<open>.\<close>, \<^verbatim>\<open>%\<close>, \<^verbatim>\<open>#\<close>, brackets, the backslash) is
  ASCII, and an ASCII byte never occurs inside the encoding of another character, so
  searching, splitting and comparing agree with the code-unit operations of the source.
  Console output (\<^verbatim>\<open>console.log\<close> and friends) is not modelled.
\<close>

definition startsWith :: "string \<Rightarrow> string \<Rightarrow> bool" where
  "startsWith s p = (take (length p) s = p)"

text \<open>\<^verbatim>\<open>s.split(c)\<close> for a one-character separator.\<close>

fun split_on :: "char \<Rightarrow> string \<Rightarrow> string list" where
  "split_on c [] = [[]]"
| "split_on c (x # xs) =
     (if x = c then [] # split_on c xs
      else (case split_on c xs of
              [] \<Rightarrow> [[x]]
            | s # ss \<Rightarrow> (x # s) # ss))"

text \<open>\<^verbatim>\<open>parts.join(sep)\<close> for an array of strings.\<close>

fun join_with :: "string \<Rightarrow> string list \<Rightarrow> string" where
  "join_with sep [] = []"
| "join_with sep [s] = s"
| "join_with sep (s # t # ss) = s @ sep @ join_with sep (t # ss)"

text \<open>The errors the JavaScript runtime throws in the code under study.\<close>

datatype js_error = URIError | TypeError | SyntaxError

section \<open>The \<^verbatim>\<open>path\<close> module (POSIX)\<close>

text \<open>
  The program imports Node's \<^verbatim>\<open>path\<close>; the model is its POSIX variant, the one the
  repository's tests exercise (\<^verbatim>\<open>/home/user/docs\<close>, \<^verbatim>\<open>/a/b/c/file.md\<close>). The functions
  below follow Node's implementation; \<^verbatim>\<open>normalizeString\<close> and \<^verbatim>\<open>relative\<close> are written
  over path segments instead of character indices.
\<close>

definition isAbsolute :: "string \<Rightarrow> bool" where
  "isAbsolute p = (case p of [] \<Rightarrow> False | c # _ \<Rightarrow> c = CHR ''/'')"

text \<open>
  One step of \<^verbatim>\<open>normalizeString\<close>: empty segments and \<^verbatim>\<open>.\<close> are dropped, \<^verbatim>\<open>..\<close> removes
  the segment before it, unless there is none or it is itself \<^verbatim>\<open>..\<close>; then \<^verbatim>\<open>..\<close> is kept
  when \<open>allowAboveRoot\<close> holds and dropped otherwise.
\<close>

definition norm_step :: "bool \<Rightarrow> string list \<Rightarrow> string \<Rightarrow> string list" where
  "norm_step allowAboveRoot res seg =
     (if seg = [] \<or> seg = ''.'' then res
      else if seg = ''..'' then
        (if res \<noteq> [] \<and> last res \<noteq> ''..'' then butlast res
         else if allowAboveRoot then res @ [''..'']
         else res)
      else res @ [seg])"

definition norm_segments :: "bool \<Rightarrow> string \<Rightarrow> string list" where
  "norm_segments allowAboveRoot p = foldl (norm_step allowAboveRoot) [] (split_on CHR ''/'' p)"

definition normalizeString :: "string \<Rightarrow> bool \<Rightarrow> string" where
  "normalizeString p allowAboveRoot = join_with ''/'' (norm_segments allowAboveRoot p)"

text \<open>
  \<^verbatim>\<open>path.resolve(...args)\<close>: the arguments are read from the last to the first, then the
  current working directory \<open>cwd\<close> (\<^verbatim>\<open>process.cwd()\<close>), until an absolute one is met;
  empty arguments are skipped. \<open>resolve_loop\<close> takes the arguments in that reading order.
\<close>

fun resolve_loop :: "string \<Rightarrow> string list \<Rightarrow> string \<Rightarrow> string \<times> bool" where
  "resolve_loop cwd [] resolvedPath =
     (if cwd = [] then (resolvedPath, False)
      else (cwd @ ''/'' @ resolvedPath, isAbsolute cwd))"
| "resolve_loop cwd (p # ps) resolvedPath =
     (if p = [] then resolve_loop cwd ps resolvedPath
      else if isAbsolute p then (p @ ''/'' @ resolvedPath, True)
      else resolve_loop cwd ps (p @ ''/'' @ resolvedPath))"

definition resolve :: "string \<Rightarrow> string list \<Rightarrow> string" where
  "resolve cwd args =
     (case resolve_loop cwd (rev args) [] of
        (resolvedPath, resolvedAbsolute) \<Rightarrow>
          (let n = normalizeString resolvedPath (\<not> resolvedAbsolute)
           in if resolvedAbsolute then ''/'' @ n
              else if n \<noteq> [] then n else ''.''))"

text \<open>\<^verbatim>\<open>path.normalize\<close> and \<^verbatim>\<open>path.join\<close>.\<close>

definition normalize :: "string \<Rightarrow> string" where
  "normalize p =
     (if p = [] then ''.''
      else let abs = isAbsolute p;
               trailingSeparator = (last p = CHR ''/'');
               n = normalizeString p (\<not> abs)
           in if n = [] then (if abs then ''/'' else if trailingSeparator then ''./'' else ''.'')
              else (if abs then ''/'' else []) @ n @ (if trailingSeparator then ''/'' else []))"

definition join :: "string list \<Rightarrow> string" where
  "join args =
     (let joined = join_with ''/'' (filter (\<lambda>a. a \<noteq> []) args)
      in if joined = [] then ''.'' else normalize joined)"

text \<open>
  \<^verbatim>\<open>path.relative(from, to)\<close>: both paths are resolved; the segments they share at the
  front are dropped, every remaining segment of \<open>from\<close> becomes \<^verbatim>\<open>..\<close> and the remaining
  segments of \<open>to\<close> follow.
\<close>

definition path_segments :: "string \<Rightarrow> string list" where
  "path_segments p = filter (\<lambda>s. s \<noteq> []) (split_on CHR ''/'' p)"

fun common_prefix_length :: "string list \<Rightarrow> string list \<Rightarrow> nat" where
  "common_prefix_length (x # xs) (y # ys) = (if x = y then Suc (common_prefix_length xs ys) else 0)"
| "common_prefix_length _ _ = 0"

definition relative :: "string \<Rightarrow> string \<Rightarrow> string \<Rightarrow> string" where
  "relative cwd from to =
     (if from = to then []
      else let from' = resolve cwd [from]; to' = resolve cwd [to]
           in if from' = to' then []
              else let fs = path_segments from'; ts = path_segments to';
                       k = common_prefix_length fs ts
                   in join_with ''/'' (replicate (length fs - k) ''..'' @ drop k ts))"

text \<open>
  \<^verbatim>\<open>path.dirname\<close>: trailing separators are skipped, then the last segment; the scan
  stops at index 1, so that the root is never removed.
\<close>

definition dirname :: "string \<Rightarrow> string" where
  "dirname p =
     (if p = [] then ''.''
      else let hasRoot = isAbsolute p;
               r1 = dropWhile (\<lambda>c. c = CHR ''/'') (rev (tl p));
               r2 = dropWhile (\<lambda>c. c \<noteq> CHR ''/'') r1
           in if r2 = [] then (if hasRoot then ''/'' else ''.'')
              else if hasRoot \<and> length r2 = 1 then ''//''
              else take (length r2) p)"





section \<open>\<^verbatim>\<open>decodeURIComponent\<close>\<close>

text \<open>
  The \<^verbatim>\<open>Decode\<close> operation of ECMAScript with an empty reserved set. A \<^verbatim>\<open>%\<close> must be
  followed by two hexadecimal digits; an octet with the high bit set starts a sequence of
  two to four escaped octets, which must be the UTF-8 encoding of a code point. Anything
  else throws \<^verbatim>\<open>URIError\<close>. On strings as UTF-8 bytes the decoded code point is its
  octets.
\<close>

definition hex_digit :: "char \<Rightarrow> nat option" where
  "hex_digit c =
     (let n = (of_char c :: nat)
      in if 48 \<le> n \<and> n \<le> 57 then Some (n - 48)
         else if 65 \<le> n \<and> n \<le> 70 then Some (n - 55)
         else if 97 \<le> n \<and> n \<le> 102 then Some (n - 87)
         else None)"

fun read_escape :: "string \<Rightarrow> (nat \<times> string) option" where
  "read_escape (p # h1 # h2 # rest) =
     (if p = CHR ''%'' then
        (case (hex_digit h1, hex_digit h2) of
           (Some a, Some b) \<Rightarrow> Some (16 * a + b, rest)
         | _ \<Rightarrow> None)
      else None)"
| "read_escape _ = None"

fun read_escapes :: "nat \<Rightarrow> string \<Rightarrow> nat list option" where
  "read_escapes 0 s = Some []"
| "read_escapes (Suc n) s =
     (case read_escape s of
        None \<Rightarrow> None
      | Some (b, rest) \<Rightarrow> map_option (Cons b) (read_escapes n rest))"

definition leading_ones :: "nat \<Rightarrow> nat" where
  "leading_ones b =
     (if b < 128 then 0 else if b < 192 then 1 else if b < 224 then 2
      else if b < 240 then 3 else if b < 248 then 4 else 5)"

definition continuation :: "nat \<Rightarrow> bool" where
  "continuation b = (128 \<le> b \<and> b < 192)"

text \<open>
  Well-formed UTF-8 sequences of two to four octets: no overlong form, no surrogate, no
  code point above \<^verbatim>\<open>U+10FFFF\<close>.
\<close>

fun valid_utf8 :: "nat list \<Rightarrow> bool" where
  "valid_utf8 [b0, b1] = (194 \<le> b0 \<and> b0 < 224 \<and> continuation b1)"
| "valid_utf8 [b0, b1, b2] =
     (224 \<le> b0 \<and> b0 < 240 \<and> continuation b1 \<and> continuation b2 \<and>
      (if b0 = 224 then 160 \<le> b1 else True) \<and> (if b0 = 237 then b1 < 160 else True))"
| "valid_utf8 [b0, b1, b2, b3] =
     (240 \<le> b0 \<and> b0 < 245 \<and> continuation b1 \<and> continuation b2 \<and> continuation b3 \<and>
      (if b0 = 240 then 144 \<le> b1 else True) \<and> (if b0 = 244 then b1 < 144 else True))"
| "valid_utf8 _ = False"

text \<open>The octets of the one code point escaped at the head of the string.\<close>

definition decode_escape_sequence :: "string \<Rightarrow> nat list option" where
  "decode_escape_sequence s =
     (case read_escape s of
        None \<Rightarrow> None
      | Some (b, rest) \<Rightarrow>
          let n = leading_ones b
          in if n = 0 then Some [b]
             else if n = 1 \<or> n > 4 then None
             else (case read_escapes (n - 1) rest of
                     None \<Rightarrow> None
                   | Some bs \<Rightarrow> if valid_utf8 (b # bs) then Some (b # bs) else None))"

text \<open>
  The loop over the string; the first argument counts the characters of an escape
  sequence that are still to be skipped.
\<close>

fun decode_from :: "nat \<Rightarrow> string \<Rightarrow> string option" where
  "decode_from k [] = Some []"
| "decode_from (Suc k) (c # cs) = decode_from k cs"
| "decode_from 0 (c # cs) =
     (if c \<noteq> CHR ''%'' then map_option (Cons c) (decode_from 0 cs)
      else (case decode_escape_sequence (c # cs) of
              None \<Rightarrow> None
            | Some octets \<Rightarrow>
                map_option (append (map char_of octets))
                  (decode_from (3 * length octets - 1) cs)))"

definition decodeURIComponent :: "string \<Rightarrow> js_error + string" where
  "decodeURIComponent s = (case decode_from 0 s of None \<Rightarrow> Inl URIError | Some r \<Rightarrow> Inr r)"

section \<open>Link extraction\<close>

text \<open>
  A token of markdown-it: its \<^verbatim>\<open>type\<close>, its attribute list (\<^verbatim>\<open>attrs\<close>, name and value
  pairs; \<^verbatim>\<open>null\<close> is the empty list) and its \<^verbatim>\<open>children\<close> (\<^verbatim>\<open>null\<close> is the empty list).
\<close>

datatype token = Token (ttype: string) (attrs: "(string \<times> string) list") (children: "token list")

text \<open>\<^verbatim>\<open>token.attrGet(name)\<close>: the value of the first attribute of that name, or \<^verbatim>\<open>null\<close>.\<close>

definition attrGet :: "token \<Rightarrow> string \<Rightarrow> string option" where
  "attrGet t n = map_of (attrs t) n"

text \<open>\<^verbatim>\<open>a || b\<close> on values that are \<^verbatim>\<open>null\<close> or strings: \<^verbatim>\<open>null\<close> and \<^verbatim>\<open>''\<close> are falsy.\<close>

definition js_or :: "string option \<Rightarrow> string option \<Rightarrow> string option" where
  "js_or a b = (case a of Some (c # cs) \<Rightarrow> a | _ \<Rightarrow> b)"

text \<open>
  What the program depends on and does not define: the markdown-it parser
  (\<^verbatim>\<open>md.parse(text, {})\<close>), the working directory of the process (\<^verbatim>\<open>process.cwd()\<close>, read by
  \<^verbatim>\<open>path.resolve\<close>), \<^verbatim>\<open>JSON.parse\<close> (\<open>None\<close> when it throws \<^verbatim>\<open>SyntaxError\<close>) and the three
  things the program can observe of a parsed number: whether it is truthy, its
  \<^verbatim>\<open>String(n)\<close> and its rendering by \<^verbatim>\<open>JSON.stringify\<close>.
\<close>

datatype 'n json =
    JNull
  | JBool bool
  | JNum 'n
  | JStr string
  | JArr "'n json list"
  | JObj "(string \<times> 'n json) list"

record 'n env =
  md_parse :: "string \<Rightarrow> token list"
  cwd :: string
  JSON_parse :: "string \<Rightarrow> 'n json option"
  num_truthy :: "'n \<Rightarrow> bool"
  num_toString :: "'n \<Rightarrow> string"
  num_toJSON :: "'n \<Rightarrow> string"

text \<open>
  \<^verbatim>\<open>href.replace(/^<(.+)>$/, '$1')\<close>: the whole string must be \<^verbatim>\<open><\<close>, one or more
  characters that are not line terminators, \<^verbatim>\<open>>\<close>. The line terminators are LF, CR,
  \<^verbatim>\<open>U+2028\<close> and \<^verbatim>\<open>U+2029\<close> (in UTF-8: \<^verbatim>\<open>E2 80 A8\<close> and \<^verbatim>\<open>E2 80 A9\<close>).
\<close>

fun has_line_terminator :: "string \<Rightarrow> bool" where
  "has_line_terminator [] = False"
| "has_line_terminator (c # cs) =
     (c = CHR 0x0A \<or> c = CHR 0x0D \<or>
      (c = CHR 0xE2 \<and> (startsWith cs [CHR 0x80, CHR 0xA8] \<or> startsWith cs [CHR 0x80, CHR 0xA9])) \<or>
      has_line_terminator cs)"

definition strip_angle_brackets :: "string \<Rightarrow> string" where
  "strip_angle_brackets href =
     (if 3 \<le> length href \<and> hd href = CHR ''<'' \<and> last href = CHR ''>'' \<and>
         \<not> has_line_terminator (butlast (tl href))
      then butlast (tl href) else href)"

definition isUrlLink :: "string \<Rightarrow> bool" where
  "isUrlLink href = (startsWith href ''http://'' \<or> startsWith href ''https://'')"

text \<open>
  \<^verbatim>\<open>normalizeLink(href, baseDir)\<close>; the test \<^verbatim>\<open>/^https?:\/\//\<close> is \<open>isUrlLink\<close>. The call of
  \<^verbatim>\<open>decodeURIComponent\<close> is not inside a \<^verbatim>\<open>try\<close>.
\<close>

definition normalizeLink :: "'n env \<Rightarrow> string \<Rightarrow> string \<Rightarrow> js_error + string" where
  "normalizeLink env href baseDir =
     (if isAbsolute href \<or> isUrlLink href then Inr href
      else (case decodeURIComponent href of
              Inl e \<Rightarrow> Inl e
            | Inr decodedHref \<Rightarrow> Inr (resolve (cwd env) [baseDir, decodedHref])))"

text \<open>
  \<^verbatim>\<open>walkTokens(tokens, callback)\<close>, the callback acting on a state and possibly throwing:
  a token is visited before its children, the children before the next token.
\<close>

fun walkTokens :: "(token \<Rightarrow> 's \<Rightarrow> js_error + 's) \<Rightarrow> token list \<Rightarrow> 's \<Rightarrow> js_error + 's" where
  "walkTokens callback [] s = Inr s"
| "walkTokens callback (Token ty at ch # ts) s =
     (case callback (Token ty at ch) s of
        Inl e \<Rightarrow> Inl e
      | Inr s1 \<Rightarrow>
          (case walkTokens callback ch s1 of
             Inl e \<Rightarrow> Inl e
           | Inr s2 \<Rightarrow> walkTokens callback ts s2))"

text \<open>The variables the callback of \<^verbatim>\<open>extractMarkdownLinks\<close> updates.\<close>

record extract_state =
  links :: "string list"
  urlCount :: nat
  unsupportedCount :: nat

definition extract_callback :: "'n env \<Rightarrow> string \<Rightarrow> token \<Rightarrow> extract_state \<Rightarrow> js_error + extract_state" where
  "extract_callback env baseDir token st =
     (if ttype token = ''link_open'' \<or> ttype token = ''image'' then
        (case js_or (attrGet token ''href'') (attrGet token ''src'') of
           Some (c # cs) \<Rightarrow>
             (let href = strip_angle_brackets (c # cs)
              in if isUrlLink href then Inr (st\<lparr>urlCount := urlCount st + 1\<rparr>)
                 else if startsWith href ''#'' \<or> startsWith href ''mailto:'' \<or>
                         startsWith href ''javascript:''
                 then Inr (st\<lparr>unsupportedCount := unsupportedCount st + 1\<rparr>)
                 else (case normalizeLink env href baseDir of
                         Inl e \<Rightarrow> Inl e
                       | Inr h \<Rightarrow> Inr (st\<lparr>links := links st @ [h]\<rparr>)))
         | _ \<Rightarrow> Inr st)
      else Inr st)"

text \<open>
  The walk of \<^verbatim>\<open>extractMarkdownLinks\<close> with its three variables, and the function itself,
  which returns \<^verbatim>\<open>links\<close> (the two counters are only logged).
\<close>

definition extract_walk :: "'n env \<Rightarrow> string \<Rightarrow> string \<Rightarrow> js_error + extract_state" where
  "extract_walk env text baseDir =
     walkTokens (extract_callback env baseDir) (md_parse env text)
       \<lparr>links = [], urlCount = 0, unsupportedCount = 0\<rparr>"

definition extractMarkdownLinks :: "'n env \<Rightarrow> string \<Rightarrow> string \<Rightarrow> js_error + string list" where
  "extractMarkdownLinks env text baseDir =
     (case extract_walk env text baseDir of
        Inl e \<Rightarrow> Inl e
      | Inr st \<Rightarrow> Inr (links st))"

section \<open>Notebooks\<close>

text \<open>
  A value returned by \<^verbatim>\<open>JSON.parse\<close> is a \<open>json\<close>; an object is the list of its own
  properties in enumeration order. \<^verbatim>\<open>value.name\<close>, for the three names the program
  reads (\<^verbatim>\<open>cells\<close>, \<^verbatim>\<open>cell_type\<close>, \<^verbatim>\<open>source\<close>): \<^verbatim>\<open>null\<close> throws \<^verbatim>\<open>TypeError\<close>; an
  object answers with its own property or \<^verbatim>\<open>undefined\<close> (\<open>None\<close>); arrays, strings, numbers
  and booleans have no property of these names.
\<close>

definition get_prop :: "'n json \<Rightarrow> string \<Rightarrow> js_error + 'n json option" where
  "get_prop v k =
     (case v of
        JNull \<Rightarrow> Inl TypeError
      | JObj kvs \<Rightarrow> Inr (map_of kvs k)
      | _ \<Rightarrow> Inr None)"

definition truthy :: "'n env \<Rightarrow> 'n json \<Rightarrow> bool" where
  "truthy env v =
     (case v of
        JNull \<Rightarrow> False
      | JBool b \<Rightarrow> b
      | JNum n \<Rightarrow> num_truthy env n
      | JStr s \<Rightarrow> s \<noteq> []
      | _ \<Rightarrow> True)"

text \<open>The code points of a string: a byte that is not a continuation byte starts one.\<close>

fun code_points :: "string \<Rightarrow> string list" where
  "code_points [] = []"
| "code_points (c # cs) =
     (case (cs, code_points cs) of
        (b # _, p # ps) \<Rightarrow>
          if continuation (of_char b) then (c # p) # ps else [c] # p # ps
      | _ \<Rightarrow> [[c]])"

text \<open>
  \<^verbatim>\<open>for (const x of v)\<close>: an array yields its elements, a string its code points; any
  other value is not iterable.
\<close>

definition iterate :: "'n json \<Rightarrow> js_error + 'n json list" where
  "iterate v =
     (case v of
        JArr xs \<Rightarrow> Inr xs
      | JStr s \<Rightarrow> Inr (map JStr (code_points s))
      | _ \<Rightarrow> Inl TypeError)"

text \<open>The value of \<^verbatim>\<open>data.cells || []\<close>.\<close>

definition cells_or_empty :: "'n env \<Rightarrow> 'n json \<Rightarrow> js_error + 'n json" where
  "cells_or_empty env data =
     (case get_prop data ''cells'' of
        Inl e \<Rightarrow> Inl e
      | Inr None \<Rightarrow> Inr (JArr [])
      | Inr (Some v) \<Rightarrow> Inr (if truthy env v then v else JArr []))"

text \<open>
  \<^verbatim>\<open>String(v)\<close> and \<^verbatim>\<open>xs.join(sep)\<close>. In a join, \<^verbatim>\<open>null\<close> is the empty string. An array
  is converted by joining it with commas, an object to \<^verbatim>\<open>[object Object]\<close>; an object with
  an own property \<^verbatim>\<open>toString\<close> (which is not callable) cannot be converted.
\<close>

fun js_toString :: "'n env \<Rightarrow> 'n json \<Rightarrow> js_error + string"
  and array_join :: "'n env \<Rightarrow> string \<Rightarrow> 'n json list \<Rightarrow> js_error + string" where
  "js_toString env JNull = Inr ''null''"
| "js_toString env (JBool b) = Inr (if b then ''true'' else ''false'')"
| "js_toString env (JNum n) = Inr (num_toString env n)"
| "js_toString env (JStr s) = Inr s"
| "js_toString env (JArr xs) = array_join env '','' xs"
| "js_toString env (JObj kvs) =
     (if map_of kvs ''toString'' \<noteq> None then Inl TypeError else Inr ''[object Object]'')"
| "array_join env sep [] = Inr []"
| "array_join env sep (x # xs) =
     (case (if x = JNull then Inr [] else js_toString env x) of
        Inl e \<Rightarrow> Inl e
      | Inr s \<Rightarrow>
          (case array_join env sep xs of
             Inl e \<Rightarrow> Inl e
           | Inr r \<Rightarrow> Inr (if xs = [] then s else s @ sep @ r)))"

text \<open>\<^verbatim>\<open>cell.source.join('')\<close>: only an array has a callable \<^verbatim>\<open>join\<close>.\<close>

definition source_join :: "'n env \<Rightarrow> 'n json option \<Rightarrow> js_error + string" where
  "source_join env src =
     (case src of
        Some (JArr xs) \<Rightarrow> array_join env [] xs
      | _ \<Rightarrow> Inl TypeError)"

text \<open>The loop of \<^verbatim>\<open>extractLinksFromNotebook\<close> over the cells, \<open>acc\<close> being \<^verbatim>\<open>links\<close>.\<close>

fun notebook_loop :: "'n env \<Rightarrow> string \<Rightarrow> 'n json list \<Rightarrow> string list \<Rightarrow> js_error + string list" where
  "notebook_loop env baseDir [] acc = Inr acc"
| "notebook_loop env baseDir (cell # rest) acc =
     (case get_prop cell ''cell_type'' of
        Inl e \<Rightarrow> Inl e
      | Inr ty \<Rightarrow>
          if ty = Some (JStr ''markdown'') then
            (case get_prop cell ''source'' of
               Inl e \<Rightarrow> Inl e
             | Inr src \<Rightarrow>
                 (case source_join env src of
                    Inl e \<Rightarrow> Inl e
                  | Inr text \<Rightarrow>
                      (case extractMarkdownLinks env text baseDir of
                         Inl e \<Rightarrow> Inl e
                       | Inr ls \<Rightarrow> notebook_loop env baseDir rest (acc @ ls))))
          else notebook_loop env baseDir rest acc)"

text \<open>The body of the \<^verbatim>\<open>try\<close> block of \<^verbatim>\<open>extractLinksFromNotebook\<close>.\<close>

definition notebook_try :: "'n env \<Rightarrow> string \<Rightarrow> string \<Rightarrow> js_error + string list" where
  "notebook_try env content baseDir =
     (case JSON_parse env content of
        None \<Rightarrow> Inl SyntaxError
      | Some data \<Rightarrow>
          (case cells_or_empty env data of
             Inl e \<Rightarrow> Inl e
           | Inr cv \<Rightarrow>
               (case iterate cv of
                  Inl e \<Rightarrow> Inl e
                | Inr cells \<Rightarrow> notebook_loop env baseDir cells [])))"

definition extractLinksFromNotebook :: "'n env \<Rightarrow> string \<Rightarrow> string \<Rightarrow> string list" where
  "extractLinksFromNotebook env content baseDir =
     (case notebook_try env content baseDir of
        Inl e \<Rightarrow> []
      | Inr ls \<Rightarrow> ls)"

section \<open>Broken-link detection\<close>

text \<open>
  The value thrown by \<^verbatim>\<open>fs.statSync\<close>: a system error with its \<^verbatim>\<open>code\<close> and
  \<^verbatim>\<open>message\<close>.
\<close>

record fs_error =
  code :: string
  message :: string

text \<open>
  The part of \<^verbatim>\<open>fs.Stats\<close> that \<^verbatim>\<open>isLinkBroken\<close> reads: the answers of
  \<^verbatim>\<open>stat.isFile()\<close> and \<^verbatim>\<open>stat.isDirectory()\<close>.
\<close>

record stats =
  isFile :: bool
  isDirectory :: bool

text \<open>
  The current filesystem state, as \<^verbatim>\<open>fs.statSync\<close> sees it: every path either
  throws (\<open>Inl\<close>) or has a \<^verbatim>\<open>Stats\<close> object (\<open>Inr\<close>).
\<close>

type_synonym filesystem = "string \<Rightarrow> fs_error + stats"

text \<open>
  \<^verbatim>\<open>isLinkBroken(link)\<close>: the \<^verbatim>\<open>try\<close> block is the \<open>Inr\<close> branch, the
  \<^verbatim>\<open>catch\<close> block the \<open>Inl\<close> branch.
\<close>

definition isLinkBroken :: "filesystem \<Rightarrow> string \<Rightarrow> bool" where
  "isLinkBroken fs link =
     (case fs link of
        Inr stat \<Rightarrow>
          if isFile stat then False
          else if isDirectory stat then False
          else True
      | Inl error \<Rightarrow>
          if code error = ''ENOENT'' then True
          else if code error = ''EACCES'' then True
          else True)"

record BrokenLinkInfo =
  filePath :: string
  brokenLink :: string
  originalLink :: string

text \<open>
  \<^verbatim>\<open>findBrokenLinks(index)\<close>. The index is the list of the object's own entries in
  the order of \<^verbatim>\<open>Object.keys\<close>; every key has an array value, so
  \<^verbatim>\<open>index[filePath] || []\<close> is that array.
\<close>

definition findBrokenLinks :: "filesystem \<Rightarrow> (string \<times> string list) list \<Rightarrow> BrokenLinkInfo list" where
  "findBrokenLinks fs index =
     concat (map (\<lambda>(fp, ls).
        map (\<lambda>link. \<lparr>filePath = fp, brokenLink = link, originalLink = link\<rparr>)
          (filter (isLinkBroken fs) ls)) index)"

section \<open>Candidate search\<close>







section \<open>Repair selection\<close>



section \<open>Path recalculation and rewriting\<close>

text \<open>\<^verbatim>\<open>calculateRelativePath\<close>; \<^verbatim>\<open>replace(/\\/g, '/')\<close> turns every backslash into a slash.\<close>

definition calculateRelativePath :: "'n env \<Rightarrow> string \<Rightarrow> string \<Rightarrow> string" where
  "calculateRelativePath env fromFile toFile =
     (let fromDir = dirname fromFile;
          relativePath = relative (cwd env) fromDir toFile
      in map (\<lambda>c. if c = CHR 0x5C then CHR ''/'' else c) relativePath)"

definition isRelativeLink :: "string \<Rightarrow> bool" where
  "isRelativeLink link =
     (\<not> isAbsolute link \<and> \<not> startsWith link ''http://'' \<and> \<not> startsWith link ''https://'' \<and>
      \<not> startsWith link ''#'' \<and> \<not> startsWith link ''mailto:'' \<and>
      \<not> startsWith link ''javascript:'')"

text \<open>
  A match of \<^verbatim>\<open>/\[([^\]]*)\]\((<)?([^>)]+)(>)?\)/\<close>: the matched text and the four groups
  (an optional group that took no part is \<^verbatim>\<open>undefined\<close>, here \<open>None\<close>).
\<close>

record link_match =
  matched :: string
  alt :: string
  openingBrace :: "string option"
  link :: string
  closingBrace :: "string option"

text \<open>
  The match of that expression at the head of a string, if there is one. The text up to
  the first \<^verbatim>\<open>]\<close> is the first group, and \<^verbatim>\<open>(\<close> must follow. The longest run of
  characters other than \<^verbatim>\<open>>\<close> and \<^verbatim>\<open>)\<close> must be non-empty and be followed by \<^verbatim>\<open>)\<close> or by
  \<^verbatim>\<open>>)\<close>; no shorter run can be, since the run's own characters are neither. A leading
  \<^verbatim>\<open><\<close> of the run goes to the second group when the run has more characters.
\<close>

definition match_inline_link :: "string \<Rightarrow> link_match option" where
  "match_inline_link s =
     (case s of
        [] \<Rightarrow> None
      | c # r \<Rightarrow>
          if c \<noteq> CHR ''['' then None
          else
            let a = takeWhile (\<lambda>x. x \<noteq> CHR '']'') r;
                r1 = dropWhile (\<lambda>x. x \<noteq> CHR '']'') r
            in if \<not> startsWith r1 ''](''  then None
               else
                 let r2 = drop 2 r1;
                     run = takeWhile (\<lambda>x. x \<noteq> CHR ''>'' \<and> x \<noteq> CHR '')'') r2;
                     r3 = dropWhile (\<lambda>x. x \<noteq> CHR ''>'' \<and> x \<noteq> CHR '')'') r2;
                     closing = (if startsWith r3 '')'' then Some None
                                else if startsWith r3 ''>)'' then Some (Some ''>'')
                                else None)
                 in if run = [] then None
                    else (case closing of
                            None \<Rightarrow> None
                          | Some cl \<Rightarrow>
                              Some \<lparr>matched = ''['' @ a @ '']('' @ run @
                                       (case cl of None \<Rightarrow> [] | Some g \<Rightarrow> g) @ '')'',
                                     alt = a,
                                     openingBrace =
                                       (if hd run = CHR ''<'' \<and> 2 \<le> length run then Some ''<''
                                        else None),
                                     link =
                                       (if hd run = CHR ''<'' \<and> 2 \<le> length run then tl run
                                        else run),
                                     closingBrace = cl\<rparr>))"

text \<open>The same for \<^verbatim>\<open>/!\[([^\]]*)\]\((<)?([^>)]+)(>)?\)/\<close>.\<close>

definition match_image_link :: "string \<Rightarrow> link_match option" where
  "match_image_link s =
     (case s of
        [] \<Rightarrow> None
      | c # r \<Rightarrow>
          if c \<noteq> CHR ''!'' then None
          else (case match_inline_link r of
                  None \<Rightarrow> None
                | Some m \<Rightarrow> Some (m\<lparr>matched := CHR ''!'' # matched m\<rparr>)))"

text \<open>
  \<^verbatim>\<open>text.replace(regex, callback)\<close> for a global expression: the matches are looked for
  from left to right, the search resuming after each match; the callback may throw. The
  third argument counts the characters of the last match that are still to be skipped.
\<close>

fun replace_global ::
  "(string \<Rightarrow> link_match option) \<Rightarrow> (link_match \<Rightarrow> js_error + string) \<Rightarrow> nat \<Rightarrow> string
     \<Rightarrow> js_error + string" where
  "replace_global matcher callback k [] = Inr []"
| "replace_global matcher callback (Suc k) (c # cs) = replace_global matcher callback k cs"
| "replace_global matcher callback 0 (c # cs) =
     (case matcher (c # cs) of
        None \<Rightarrow>
          (case replace_global matcher callback 0 cs of
             Inl e \<Rightarrow> Inl e
           | Inr r \<Rightarrow> Inr (c # r))
      | Some m \<Rightarrow>
          (case callback m of
             Inl e \<Rightarrow> Inl e
           | Inr replacement \<Rightarrow>
               (case replace_global matcher callback (length (matched m) - 1) cs of
                  Inl e \<Rightarrow> Inl e
                | Inr r \<Rightarrow> Inr (replacement @ r))))"

text \<open>
  \<^verbatim>\<open>str.replace(pattern, replacement)\<close> for a string pattern: the first occurrence is
  replaced, and \<^verbatim>\<open>$$\<close>, \<^verbatim>\<open>$&\<close>, \<^verbatim>\<open>$`\<close> and \<^verbatim>\<open>$'\<close> in the replacement stand for a dollar, the
  occurrence, the text before it and the text after it.
\<close>

fun find_first :: "string \<Rightarrow> string \<Rightarrow> nat option" where
  "find_first [] pat = (if pat = [] then Some 0 else None)"
| "find_first (c # cs) pat =
     (if startsWith (c # cs) pat then Some 0 else map_option Suc (find_first cs pat))"

fun get_substitution :: "string \<Rightarrow> string \<Rightarrow> string \<Rightarrow> string \<Rightarrow> string" where
  "get_substitution m pre post [] = []"
| "get_substitution m pre post [c] = [c]"
| "get_substitution m pre post (c # d # r) =
     (if c = CHR ''$'' \<and> d = CHR ''$'' then CHR ''$'' # get_substitution m pre post r
      else if c = CHR ''$'' \<and> d = CHR ''&'' then m @ get_substitution m pre post r
      else if c = CHR ''$'' \<and> d = CHR 0x60 then pre @ get_substitution m pre post r
      else if c = CHR ''$'' \<and> d = CHR 0x27 then post @ get_substitution m pre post r
      else c # get_substitution m pre post (d # r))"

definition replace_first :: "string \<Rightarrow> string \<Rightarrow> string \<Rightarrow> string" where
  "replace_first str pat replacement =
     (case find_first str pat of
        None \<Rightarrow> str
      | Some i \<Rightarrow>
          take i str
            @ get_substitution pat (take i str) (drop (i + length pat) str) replacement
            @ drop (i + length pat) str)"

text \<open>The callback of \<^verbatim>\<open>updateInlineLinks\<close>.\<close>

definition update_link :: "'n env \<Rightarrow> string \<Rightarrow> string \<Rightarrow> link_match \<Rightarrow> js_error + string" where
  "update_link env oldDir dummyFile m =
     (if isRelativeLink (link m) then
        (case normalizeLink env (link m) oldDir of
           Inl e \<Rightarrow> Inl e
         | Inr target \<Rightarrow>
             let newLink0 = calculateRelativePath env dummyFile target;
                 newLink = (if CHR '' '' \<in> set newLink0 then ''<'' @ newLink0 @ ''>'' else newLink0);
                 linkPart = (case openingBrace m of None \<Rightarrow> [] | Some g \<Rightarrow> g) @ link m @
                            (case closingBrace m of None \<Rightarrow> [] | Some g \<Rightarrow> g)
             in Inr (replace_first (matched m) linkPart newLink))
      else Inr (matched m))"

definition updateMarkdownLinks :: "'n env \<Rightarrow> string \<Rightarrow> string \<Rightarrow> string \<Rightarrow> js_error + string" where
  "updateMarkdownLinks env text oldDir newDir =
     (if oldDir = newDir then Inr text
      else
        let dummyFile = join [newDir, ''dummy.md'']
        in (case replace_global match_inline_link (update_link env oldDir dummyFile) 0 text of
              Inl e \<Rightarrow> Inl e
            | Inr text1 \<Rightarrow>
                replace_global match_image_link (update_link env oldDir dummyFile) 0 text1))"

section \<open>Rewriting notebooks\<close>

text \<open>
  \<^verbatim>\<open>JSON.stringify(data, null, 1)\<close>: the gap is one space. \<open>quote_json\<close> is
  \<^verbatim>\<open>QuoteJSONString\<close>; a control character without a short escape is written
  \<^verbatim>\<open>\u00XX\<close> in lower-case hexadecimal.
\<close>

definition hex_char :: "nat \<Rightarrow> char" where
  "hex_char n = (if n < 10 then char_of (48 + n) else char_of (87 + n))"

definition quote_char :: "char \<Rightarrow> string" where
  "quote_char c =
     (if c = CHR 0x08 then [CHR 0x5C, CHR ''b'']
      else if c = CHR 0x09 then [CHR 0x5C, CHR ''t'']
      else if c = CHR 0x0A then [CHR 0x5C, CHR ''n'']
      else if c = CHR 0x0C then [CHR 0x5C, CHR ''f'']
      else if c = CHR 0x0D then [CHR 0x5C, CHR ''r'']
      else if c = CHR 0x22 then [CHR 0x5C, CHR 0x22]
      else if c = CHR 0x5C then [CHR 0x5C, CHR 0x5C]
      else if (of_char c :: nat) < 32 then
        [CHR 0x5C, CHR ''u'', CHR ''0'', CHR ''0'',
         hex_char ((of_char c :: nat) div 16), hex_char ((of_char c :: nat) mod 16)]
      else [c])"

definition quote_json :: "string \<Rightarrow> string" where
  "quote_json s = [CHR 0x22] @ concat (map quote_char s) @ [CHR 0x22]"

fun stringify_value :: "'n env \<Rightarrow> string \<Rightarrow> 'n json \<Rightarrow> string"
  and stringify_elements :: "'n env \<Rightarrow> string \<Rightarrow> 'n json list \<Rightarrow> string list"
  and stringify_members :: "'n env \<Rightarrow> string \<Rightarrow> (string \<times> 'n json) list \<Rightarrow> string list" where
  "stringify_value env indent JNull = ''null''"
| "stringify_value env indent (JBool b) = (if b then ''true'' else ''false'')"
| "stringify_value env indent (JNum n) = num_toJSON env n"
| "stringify_value env indent (JStr s) = quote_json s"
| "stringify_value env indent (JArr xs) =
     (if xs = [] then ''[]''
      else ''['' @ [CHR 0x0A] @ (indent @ '' '')
           @ join_with ('','' @ [CHR 0x0A] @ (indent @ '' ''))
               (stringify_elements env (indent @ '' '') xs)
           @ [CHR 0x0A] @ indent @ '']'')"
| "stringify_value env indent (JObj kvs) =
     (if kvs = [] then ''{}''
      else ''{'' @ [CHR 0x0A] @ (indent @ '' '')
           @ join_with ('','' @ [CHR 0x0A] @ (indent @ '' ''))
               (stringify_members env (indent @ '' '') kvs)
           @ [CHR 0x0A] @ indent @ ''}'')"
| "stringify_elements env indent [] = []"
| "stringify_elements env indent (x # xs) =
     stringify_value env indent x # stringify_elements env indent xs"
| "stringify_members env indent [] = []"
| "stringify_members env indent ((k, v) # kvs) =
     (quote_json k @ '': '' @ stringify_value env indent v) # stringify_members env indent kvs"

definition JSON_stringify1 :: "'n env \<Rightarrow> 'n json \<Rightarrow> string" where
  "JSON_stringify1 env data = stringify_value env [] data"

text \<open>\<^verbatim>\<open>obj.name = v\<close> on an object that has the property: its place is kept.\<close>

definition set_prop :: "'n json \<Rightarrow> string \<Rightarrow> 'n json \<Rightarrow> 'n json" where
  "set_prop obj k v =
     (case obj of
        JObj kvs \<Rightarrow> JObj (map (\<lambda>(k', v'). if k' = k then (k', v) else (k', v')) kvs)
      | _ \<Rightarrow> obj)"

text \<open>
  \<^verbatim>\<open>updateMarkdownLinks(line, oldDir, newDir)\<close> on an element of \<^verbatim>\<open>cell.source\<close>, the two
  directories being different: a value that is not a string has no \<^verbatim>\<open>replace\<close> method.
\<close>

definition update_line :: "'n env \<Rightarrow> string \<Rightarrow> string \<Rightarrow> 'n json \<Rightarrow> js_error + 'n json" where
  "update_line env oldDir newDir line =
     (case line of
        JStr s \<Rightarrow>
          (case updateMarkdownLinks env s oldDir newDir of
             Inl e \<Rightarrow> Inl e
           | Inr s' \<Rightarrow> Inr (JStr s'))
      | _ \<Rightarrow> Inl TypeError)"

text \<open>\<^verbatim>\<open>xs.map(f)\<close> for an \<open>f\<close> that may throw.\<close>

fun map_throwing :: "('a \<Rightarrow> js_error + 'b) \<Rightarrow> 'a list \<Rightarrow> js_error + 'b list" where
  "map_throwing f [] = Inr []"
| "map_throwing f (x # xs) =
     (case f x of
        Inl e \<Rightarrow> Inl e
      | Inr y \<Rightarrow> (case map_throwing f xs of Inl e \<Rightarrow> Inl e | Inr ys \<Rightarrow> Inr (y # ys)))"

text \<open>
  The body of the loop of \<^verbatim>\<open>updateNotebookLinks\<close> for one cell, returning the cell as it
  is afterwards. Only an array has a callable \<^verbatim>\<open>map\<close>.
\<close>

definition update_cell :: "'n env \<Rightarrow> string \<Rightarrow> string \<Rightarrow> 'n json \<Rightarrow> js_error + 'n json" where
  "update_cell env oldDir newDir cell =
     (case get_prop cell ''cell_type'' of
        Inl e \<Rightarrow> Inl e
      | Inr ty \<Rightarrow>
          if ty = Some (JStr ''markdown'') then
            (case get_prop cell ''source'' of
               Inl e \<Rightarrow> Inl e
             | Inr None \<Rightarrow> Inr cell
             | Inr (Some src) \<Rightarrow>
                 if truthy env src then
                   (case src of
                      JArr source_lines \<Rightarrow>
                        (case map_throwing (update_line env oldDir newDir) source_lines of
                           Inl e \<Rightarrow> Inl e
                         | Inr newSource \<Rightarrow>
                             if list_ex (\<lambda>(l, l0). l \<noteq> l0) (zip newSource source_lines)
                             then Inr (set_prop cell ''source'' (JArr newSource))
                             else Inr cell)
                    | _ \<Rightarrow> Inl TypeError)
                 else Inr cell)
          else Inr cell)"

text \<open>
  The body of the \<^verbatim>\<open>try\<close> block of \<^verbatim>\<open>updateNotebookLinks\<close>. The cells are updated in
  place, inside \<open>data\<close>, when \<^verbatim>\<open>data.cells\<close> is an array; the characters of a string and
  the substitute \<^verbatim>\<open>[]\<close> are not part of \<open>data\<close>.
\<close>

definition update_notebook_try :: "'n env \<Rightarrow> string \<Rightarrow> string \<Rightarrow> string \<Rightarrow> js_error + string" where
  "update_notebook_try env content oldDir newDir =
     (case JSON_parse env content of
        None \<Rightarrow> Inl SyntaxError
      | Some data \<Rightarrow>
          (case cells_or_empty env data of
             Inl e \<Rightarrow> Inl e
           | Inr cv \<Rightarrow>
               (case iterate cv of
                  Inl e \<Rightarrow> Inl e
                | Inr cells \<Rightarrow>
                    (case map_throwing (update_cell env oldDir newDir) cells of
                       Inl e \<Rightarrow> Inl e
                     | Inr cells' \<Rightarrow>
                         Inr (JSON_stringify1 env
                                (case cv of
                                   JArr _ \<Rightarrow>
                                     (if cells = [] then data
                                      else set_prop data ''cells'' (JArr cells'))
                                 | _ \<Rightarrow> data))))))"

definition updateNotebookLinks :: "'n env \<Rightarrow> string \<Rightarrow> string \<Rightarrow> string \<Rightarrow> string" where
  "updateNotebookLinks env content oldDir newDir =
     (if oldDir = newDir then content
      else (case update_notebook_try env content oldDir newDir of
              Inl e \<Rightarrow> content
            | Inr s \<Rightarrow> s))"

section \<open>Applying a repair\<close>











section \<open>Notions of the specification\<close>

text \<open>
  The classes of the specification's step 3, in its words: a target beginning with
  \<^verbatim>\<open>http://\<close> or \<^verbatim>\<open>https://\<close> is a URL, with \<^verbatim>\<open>#\<close> an anchor, with \<^verbatim>\<open>mailto:\<close> a mailto,
  with \<^verbatim>\<open>javascript:\<close> a protocol target; anything else is a file.
\<close>

datatype link_class = FileTarget | UrlTarget | AnchorTarget | MailtoTarget | ProtocolTarget

definition classify :: "string \<Rightarrow> link_class" where
  "classify t =
     (if startsWith t ''http://'' \<or> startsWith t ''https://'' then UrlTarget
      else if startsWith t ''#'' then AnchorTarget
      else if startsWith t ''mailto:'' then MailtoTarget
      else if startsWith t ''javascript:'' then ProtocolTarget
      else FileTarget)"

text \<open>The tokens in the order in which \<^verbatim>\<open>walkTokens\<close> visits them.\<close>

fun flatten_tokens :: "token list \<Rightarrow> token list" where
  "flatten_tokens [] = []"
| "flatten_tokens (Token ty at ch # ts) = Token ty at ch # flatten_tokens ch @ flatten_tokens ts"

text \<open>
  The raw target of a token: the non-empty \<^verbatim>\<open>href\<close> (or else \<^verbatim>\<open>src\<close>) of a link-opening or
  image token, without its enclosing angle brackets. \<open>raw_targets\<close> lists the raw
  targets of a document in encounter order, and \<open>file_targets\<close> those classified as
  files.
\<close>

definition raw_target :: "token \<Rightarrow> string option" where
  "raw_target t =
     (if ttype t = ''link_open'' \<or> ttype t = ''image'' then
        (case js_or (attrGet t ''href'') (attrGet t ''src'') of
           Some (c # cs) \<Rightarrow> Some (strip_angle_brackets (c # cs))
         | _ \<Rightarrow> None)
      else None)"

definition raw_targets :: "token list \<Rightarrow> string list" where
  "raw_targets toks = List.map_filter raw_target (flatten_tokens toks)"

definition file_targets :: "token list \<Rightarrow> string list" where
  "file_targets toks = filter (\<lambda>t. classify t = FileTarget) (raw_targets toks)"

text \<open>A fold whose step may throw; the first error ends it.\<close>

fun fold_throwing :: "('a \<Rightarrow> 's \<Rightarrow> js_error + 's) \<Rightarrow> 'a list \<Rightarrow> 's \<Rightarrow> js_error + 's" where
  "fold_throwing f [] s = Inr s"
| "fold_throwing f (x # xs) s =
     (case f x s of Inl e \<Rightarrow> Inl e | Inr s' \<Rightarrow> fold_throwing f xs s')"

text \<open>
  An environment for the examples: the parsers are given, the working directory is the
  root, and the only number is \<open>()\<close>, truthy and printed as \<^verbatim>\<open>1\<close>.
\<close>

definition example_env :: "(string \<Rightarrow> token list) \<Rightarrow> (string \<Rightarrow> unit json option) \<Rightarrow> unit env" where
  "example_env md js =
     \<lparr>md_parse = md, cwd = ''/'', JSON_parse = js, num_truthy = (\<lambda>_. True),
      num_toString = (\<lambda>_. ''1''), num_toJSON = (\<lambda>_. ''1'')\<rparr>"

text \<open>
  The token stream of markdown-it for a paragraph made of inline links: each link is a
  \<^verbatim>\<open>link_open\<close> token with its \<^verbatim>\<open>href\<close>, a text token and a \<^verbatim>\<open>link_close\<close> token, all
  children of one \<^verbatim>\<open>inline\<close> token.
\<close>

definition link_tokens :: "string \<Rightarrow> token list" where
  "link_tokens href =
     [Token ''link_open'' [(''href'', href)] [], Token ''text'' [] [], Token ''link_close'' [] []]"

definition paragraph_tokens :: "token list \<Rightarrow> token list" where
  "paragraph_tokens inl =
     [Token ''paragraph_open'' [] [], Token ''inline'' [] inl, Token ''paragraph_close'' [] []]"








text \<open>
  Scenario 1: the tokens of \<^verbatim>\<open>[link](https://example.com) ![image](image.png)
  [relative](../file.md)\<close>. An image is one token with the attributes \<^verbatim>\<open>src\<close> and
  \<^verbatim>\<open>alt\<close> and its alternative text as children.
\<close>

definition scenario1_tokens :: "token list" where
  "scenario1_tokens =
     paragraph_tokens
       (link_tokens ''https://example.com'' @ [Token ''text'' [] []] @
        [Token ''image'' [(''src'', ''image.png''), (''alt'', [])] [Token ''text'' [] []]] @
        [Token ''text'' [] []] @
        link_tokens ''../file.md'')"

text \<open>
  The expected structure of a notebook, in the words of the specification: a top-level
  list of cells, each having a type tag and a list-of-lines source. \<open>notebook_view\<close> reads
  a parsed document as that structure, the pairs of type tag and source lines of its cells,
  and is \<open>None\<close> for a value of another shape.
\<close>

definition line_strings :: "'n json list \<Rightarrow> string list option" where
  "line_strings xs = those (map (\<lambda>x. case x of JStr s \<Rightarrow> Some s | _ \<Rightarrow> None) xs)"

definition cell_view :: "'n json \<Rightarrow> (string \<times> string list) option" where
  "cell_view c =
     (case c of
        JObj kvs \<Rightarrow>
          (case (map_of kvs ''cell_type'', map_of kvs ''source'') of
             (Some (JStr ty), Some (JArr xs)) \<Rightarrow> map_option (Pair ty) (line_strings xs)
           | _ \<Rightarrow> None)
      | _ \<Rightarrow> None)"

definition notebook_view :: "'n json \<Rightarrow> (string \<times> string list) list option" where
  "notebook_view data =
     (case data of
        JObj kvs \<Rightarrow>
          (case map_of kvs ''cells'' of
             Some (JArr cs) \<Rightarrow> those (map cell_view cs)
           | _ \<Rightarrow> None)
      | _ \<Rightarrow> None)"

text \<open>
  A cell on which the loops over the cells throw: \<^verbatim>\<open>null\<close>, or a markdown cell whose
  \<^verbatim>\<open>source\<close> is missing or is not an array.
\<close>

definition unreadable_cell :: "'n json \<Rightarrow> bool" where
  "unreadable_cell c =
     (case c of
        JNull \<Rightarrow> True
      | JObj kvs \<Rightarrow>
          map_of kvs ''cell_type'' = Some (JStr ''markdown'') \<and>
          (case map_of kvs ''source'' of Some (JArr xs) \<Rightarrow> False | _ \<Rightarrow> True)
      | _ \<Rightarrow> False)"

text \<open>
  The notebooks of the examples: a markdown cell and a code cell (scenario 3); the same
  markdown cell followed by a string that is no cell; a markdown cell whose source is one
  string, which the notebook format allows; and the markdown-it tokens of their texts.
\<close>

definition scenario3_notebook :: "unit json" where
  "scenario3_notebook =
     JObj [(''cells'',
            JArr [JObj [(''cell_type'', JStr ''markdown''), (''source'', JArr [JStr ''[link](file.md)''])],
                  JObj [(''cell_type'', JStr ''code''), (''source'', JArr [JStr ''print(1)''])]])]"

definition stray_notebook :: "unit json" where
  "stray_notebook =
     JObj [(''cells'',
            JArr [JObj [(''cell_type'', JStr ''markdown''), (''source'', JArr [JStr ''[link](file.md)''])],
                  JStr ''stray''])]"

definition string_source_notebook :: "unit json" where
  "string_source_notebook =
     JObj [(''cells'',
            JArr [JObj [(''cell_type'', JStr ''markdown''), (''source'', JStr ''[link](file.md)'')]])]"

definition notebook_md :: "string \<Rightarrow> token list" where
  "notebook_md t = (if t = ''[link](file.md)'' then paragraph_tokens (link_tokens ''file.md'') else [])"

text \<open>
  A notebook with the lines of its markdown cells rewritten by \<open>f\<close>, line by line: a
  cell none of whose lines changes is left as it is, another cell gets the new lines as
  its source; the cells that are not markdown cells and every other field stay.
\<close>

definition rewrite_cell :: "(string \<Rightarrow> string) \<Rightarrow> 'n json \<Rightarrow> 'n json" where
  "rewrite_cell f c =
     (case cell_view c of
        None \<Rightarrow> c
      | Some (ty, ls) \<Rightarrow>
          if ty = ''markdown'' \<and> map f ls \<noteq> ls
          then set_prop c ''source'' (JArr (map (\<lambda>l. JStr (f l)) ls))
          else c)"

definition rewrite_notebook :: "(string \<Rightarrow> string) \<Rightarrow> 'n json \<Rightarrow> 'n json" where
  "rewrite_notebook f data =
     (case data of
        JObj kvs \<Rightarrow>
          (case map_of kvs ''cells'' of
             Some (JArr (c # cs)) \<Rightarrow> set_prop data ''cells'' (JArr (map (rewrite_cell f) (c # cs)))
           | _ \<Rightarrow> data)
      | _ \<Rightarrow> data)"

definition empty_notebook :: "unit json" where
  "empty_notebook = JObj [(''cells'', JArr [])]"




section \<open>Properties\<close>

subsection \<open>Link extraction\<close>

lemma fold_throwing_append:
  "fold_throwing f (xs @ ys) s =
     (case fold_throwing f xs s of Inl e \<Rightarrow> Inl e | Inr s' \<Rightarrow> fold_throwing f ys s')"
  by (induction xs arbitrary: s) (auto split: sum.splits)

lemma walkTokens_flatten:
  "walkTokens callback ts s = fold_throwing callback (flatten_tokens ts) s"
proof (induction callback ts s rule: walkTokens.induct)
  case (1 callback s)
  show ?case by simp
next
  case (2 callback ty at ch ts s)
  have children: "walkTokens callback ch s1 = fold_throwing callback (flatten_tokens ch) s1"
    if "callback (Token ty at ch) s = Inr s1" for s1
    using 2(1) that by simp
  have siblings: "walkTokens callback ts s2 = fold_throwing callback (flatten_tokens ts) s2"
    if "callback (Token ty at ch) s = Inr s1" "walkTokens callback ch s1 = Inr s2" for s1 s2
    using 2(2) that by simp
  show ?case
  proof (cases "callback (Token ty at ch) s")
    case (Inl e)
    then show ?thesis by simp
  next
    case (Inr s1)
    note cb = this
    show ?thesis
    proof (cases "walkTokens callback ch s1")
      case (Inl e)
      then have "fold_throwing callback (flatten_tokens ch) s1 = Inl e"
        using children [OF cb] by simp
      with cb Inl show ?thesis
        by (simp add: fold_throwing_append)
    next
      case (Inr s2)
      then have "fold_throwing callback (flatten_tokens ch) s1 = Inr s2"
        using children [OF cb] by simp
      with cb Inr siblings [OF cb Inr] show ?thesis
        by (simp add: fold_throwing_append)
    qed
  qed
qed

text \<open>The callback acts on a token through its raw target and the target's class only.\<close>

lemma extract_callback_cases:
  "extract_callback env baseDir t st =
     (case raw_target t of
        None \<Rightarrow> Inr st
      | Some h \<Rightarrow>
          if classify h = UrlTarget then Inr (st\<lparr>urlCount := urlCount st + 1\<rparr>)
          else if classify h \<noteq> FileTarget then Inr (st\<lparr>unsupportedCount := unsupportedCount st + 1\<rparr>)
          else (case normalizeLink env h baseDir of
                  Inl e \<Rightarrow> Inl e
                | Inr l \<Rightarrow> Inr (st\<lparr>links := links st @ [l]\<rparr>)))"
  by (auto simp: extract_callback_def raw_target_def classify_def isUrlLink_def Let_def
      split: option.splits list.splits sum.splits)

lemma fold_extract_links:
  "fold_throwing (extract_callback env baseDir) toks st = Inr st' \<Longrightarrow>
   \<exists>out. links st' = links st @ out \<and>
         list_all2 (\<lambda>t l. normalizeLink env t baseDir = Inr l)
           (filter (\<lambda>t. classify t = FileTarget) (List.map_filter raw_target toks)) out"
proof (induction toks arbitrary: st)
  case Nil
  then show ?case by (simp add: List.map_filter_simps)
next
  case (Cons t toks)
  from Cons.prems obtain s1 where
    s1: "extract_callback env baseDir t st = Inr s1"
    and rest: "fold_throwing (extract_callback env baseDir) toks s1 = Inr st'"
    by (auto split: sum.splits)
  from Cons.IH [OF rest] obtain out where
    out: "links st' = links s1 @ out"
      "list_all2 (\<lambda>t l. normalizeLink env t baseDir = Inr l)
         (filter (\<lambda>t. classify t = FileTarget) (List.map_filter raw_target toks)) out"
    by blast
  show ?case
  proof (cases "raw_target t")
    case None
    with s1 have "s1 = st" by (simp add: extract_callback_cases)
    with out None show ?thesis by (auto simp: List.map_filter_simps)
  next
    case (Some h)
    show ?thesis
    proof (cases "classify h = FileTarget")
      case False
      with s1 Some have "links s1 = links st"
        by (auto simp: extract_callback_cases split: if_splits)
      with out Some False show ?thesis by (auto simp: List.map_filter_simps)
    next
      case True
      with s1 Some obtain l where l: "normalizeLink env h baseDir = Inr l"
        and "links s1 = links st @ [l]"
        by (auto simp: extract_callback_cases split: sum.splits)
      with out have "links st' = links st @ (l # out)" by simp
      moreover have "list_all2 (\<lambda>t l. normalizeLink env t baseDir = Inr l)
         (filter (\<lambda>t. classify t = FileTarget) (List.map_filter raw_target (t # toks))) (l # out)"
        using out(2) Some True l by (simp add: List.map_filter_simps)
      ultimately show ?thesis by blast
    qed
  qed
qed

lemma extractMarkdownLinks_file_targets:
  assumes "extractMarkdownLinks env text baseDir = Inr ls"
  shows "list_all2 (\<lambda>t l. normalizeLink env t baseDir = Inr l) (file_targets (md_parse env text)) ls"
proof -
  from assms obtain st where
    st: "walkTokens (extract_callback env baseDir) (md_parse env text)
           \<lparr>links = [], urlCount = 0, unsupportedCount = 0\<rparr> = Inr st"
    and ls: "ls = links st"
    by (auto simp: extractMarkdownLinks_def extract_walk_def split: sum.splits)
  from fold_extract_links [OF st [unfolded walkTokens_flatten]] ls
  show ?thesis by (auto simp: file_targets_def raw_targets_def)
qed

lemma not_isAbsolute_Nil: "\<not> isAbsolute []"
  by (simp add: isAbsolute_def)

lemma resolve_loop_absolute:
  "isAbsolute c \<or> (\<exists>a\<in>set ps. isAbsolute a) \<Longrightarrow> snd (resolve_loop c ps acc)"
  by (induction ps arbitrary: acc) (auto simp: not_isAbsolute_Nil)

lemma resolve_absolute:
  "isAbsolute c \<or> (\<exists>a\<in>set args. isAbsolute a) \<Longrightarrow> isAbsolute (resolve c args)"
proof -
  assume "isAbsolute c \<or> (\<exists>a\<in>set args. isAbsolute a)"
  then have "snd (resolve_loop c (rev args) [])"
    by (intro resolve_loop_absolute) simp
  then show ?thesis
    by (cases "resolve_loop c (rev args) []") (simp add: resolve_def isAbsolute_def Let_def)
qed

lemma classify_file:
  "(classify t = FileTarget) =
     (\<not> startsWith t ''http://'' \<and> \<not> startsWith t ''https://'' \<and> \<not> startsWith t ''#'' \<and>
      \<not> startsWith t ''mailto:'' \<and> \<not> startsWith t ''javascript:'')"
  by (simp add: classify_def)

lemma normalizeLink_file:
  assumes "classify t = FileTarget" "normalizeLink env t baseDir = Inr l"
  shows "if isAbsolute t then l = t
         else (\<exists>d. decodeURIComponent t = Inr d \<and> l = resolve (cwd env) [baseDir, d])"
  using assms
  by (auto simp: normalizeLink_def isUrlLink_def classify_file split: sum.splits if_splits)


text \<open>
  C1 (as amended). Whenever extraction returns, its result lists, in order, one entry for
  every target classified as a file: a target that is an absolute path appears as it is
  written (neither percent-decoded nor resolved), and every other target appears as its
  percent-decoded form resolved against the base directory. Every entry is an absolute
  path when the base directory (or the working directory of the process) is one.
\<close>

theorem file_targets_normalized:
  assumes "extractMarkdownLinks env text baseDir = Inr ls"
  shows "list_all2
           (\<lambda>t l. if isAbsolute t then l = t
                  else (\<exists>d. decodeURIComponent t = Inr d \<and> l = resolve (cwd env) [baseDir, d]))
           (file_targets (md_parse env text)) ls \<and>
         (isAbsolute baseDir \<or> isAbsolute (cwd env) \<longrightarrow> list_all isAbsolute ls)"
proof -
  have n: "list_all2 (\<lambda>t l. normalizeLink env t baseDir = Inr l) (file_targets (md_parse env text)) ls"
    using assms by (rule extractMarkdownLinks_file_targets)
  have files: "classify t = FileTarget" if "t \<in> set (file_targets (md_parse env text))" for t
    using that by (simp add: file_targets_def)
  have rel: "list_all2
           (\<lambda>t l. if isAbsolute t then l = t
                  else (\<exists>d. decodeURIComponent t = Inr d \<and> l = resolve (cwd env) [baseDir, d]))
           (file_targets (md_parse env text)) ls"
    using n by (rule list.rel_mono_strong) (rule normalizeLink_file [OF files])
  have "isAbsolute l" if "isAbsolute baseDir \<or> isAbsolute (cwd env)" "l \<in> set ls" for l
  proof -
    from that(2) obtain i where i: "i < length ls" "l = ls ! i"
      by (auto simp: in_set_conv_nth)
    define t where "t = file_targets (md_parse env text) ! i"
    from list_all2_nthD2 [OF rel i(1)] have
      "if isAbsolute t then l = t
       else (\<exists>d. decodeURIComponent t = Inr d \<and> l = resolve (cwd env) [baseDir, d])"
      by (simp only: t_def i(2))
    then show ?thesis
    proof (cases "isAbsolute t")
      case True
      with \<open>if isAbsolute t then l = t
       else (\<exists>d. decodeURIComponent t = Inr d \<and> l = resolve (cwd env) [baseDir, d])\<close>
      show ?thesis by simp
    next
      case False
      with \<open>if isAbsolute t then l = t
       else (\<exists>d. decodeURIComponent t = Inr d \<and> l = resolve (cwd env) [baseDir, d])\<close>
      obtain d where l: "l = resolve (cwd env) [baseDir, d]" by auto
      from that(1) have "isAbsolute (cwd env) \<or> (\<exists>a\<in>set [baseDir, d]. isAbsolute a)" by auto
      then show ?thesis unfolding l by (rule resolve_absolute)
    qed
  qed
  then have "isAbsolute baseDir \<or> isAbsolute (cwd env) \<longrightarrow> list_all isAbsolute ls"
    unfolding list_all_iff by blast
  with rel show ?thesis by (rule conjI)
qed

theorem file_targets_normalized_witness:
  "extractMarkdownLinks (example_env (\<lambda>_. paragraph_tokens (link_tokens ''Static%20Shock.md'')) (\<lambda>_. None))
      ''[space](Static%20Shock.md)'' ''/home/user/docs'' = Inr [''/home/user/docs/Static Shock.md''] \<and>
   list_all2
     (\<lambda>t l. if isAbsolute t then l = t
            else (\<exists>d. decodeURIComponent t = Inr d \<and>
                   l = resolve (cwd (example_env (\<lambda>_. paragraph_tokens (link_tokens ''Static%20Shock.md'')) (\<lambda>_. None)))
                         [''/home/user/docs'', d]))
     (file_targets (md_parse (example_env (\<lambda>_. paragraph_tokens (link_tokens ''Static%20Shock.md'')) (\<lambda>_. None))
        ''[space](Static%20Shock.md)''))
     [''/home/user/docs/Static Shock.md''] \<and>
   list_all isAbsolute [''/home/user/docs/Static Shock.md'']"
proof -
  have h: "extractMarkdownLinks (example_env (\<lambda>_. paragraph_tokens (link_tokens ''Static%20Shock.md'')) (\<lambda>_. None))
      ''[space](Static%20Shock.md)'' ''/home/user/docs'' = Inr [''/home/user/docs/Static Shock.md'']"
    by code_simp
  have a: "isAbsolute ''/home/user/docs''" by (simp add: isAbsolute_def)
  from file_targets_normalized [OF h] a h show ?thesis by blast
qed


text \<open>
  The claim as stated fails for a target written as an absolute path: the target
  \<^verbatim>\<open>/docs/Static%20Shock.md\<close> is a file target whose percent-decoded form resolves to
  \<^verbatim>\<open>/docs/Static Shock.md\<close>, and the output holds the undecoded text.
\<close>

theorem absolute_target_counterexample:
  "extractMarkdownLinks (example_env (\<lambda>_. paragraph_tokens (link_tokens ''/docs/Static%20Shock.md'')) (\<lambda>_. None))
      ''[space](/docs/Static%20Shock.md)'' ''/home/user/docs'' = Inr [''/docs/Static%20Shock.md''] \<and>
   classify ''/docs/Static%20Shock.md'' = FileTarget \<and>
   decodeURIComponent ''/docs/Static%20Shock.md'' = Inr ''/docs/Static Shock.md'' \<and>
   resolve ''/'' [''/home/user/docs'', ''/docs/Static Shock.md''] = ''/docs/Static Shock.md'' \<and>
   ''/docs/Static%20Shock.md'' \<noteq> ''/docs/Static Shock.md''"
  by code_simp

subsection \<open>Classification of targets\<close>

lemma normalizeLink_returns:
  "(\<exists>l. normalizeLink env t baseDir = Inr l) =
     (isAbsolute t \<or> isUrlLink t \<or> (\<exists>d. decodeURIComponent t = Inr d))"
  by (cases "decodeURIComponent t") (auto simp: normalizeLink_def)

lemma fold_extract_returns:
  "(\<exists>st'. fold_throwing (extract_callback env baseDir) toks st = Inr st') =
     (\<forall>t \<in> set (filter (\<lambda>t. classify t = FileTarget) (List.map_filter raw_target toks)).
        \<exists>l. normalizeLink env t baseDir = Inr l)"
proof (induction toks arbitrary: st)
  case Nil
  show ?case by (simp add: List.map_filter_simps)
next
  case (Cons t toks)
  show ?case
  proof (cases "raw_target t")
    case None
    then have "extract_callback env baseDir t st = Inr st"
      by (simp add: extract_callback_cases)
    with None Cons.IH [of st] show ?thesis by (simp add: List.map_filter_simps)
  next
    case (Some h)
    show ?thesis
    proof (cases "classify h = FileTarget")
      case False
      have "\<exists>s1. extract_callback env baseDir t st = Inr s1"
        using Some False by (simp add: extract_callback_cases)
      then obtain s1 where "extract_callback env baseDir t st = Inr s1" ..
      with Some False Cons.IH [of s1] show ?thesis by (simp add: List.map_filter_simps)
    next
      case True
      show ?thesis
      proof (cases "normalizeLink env h baseDir")
        case (Inl e)
        with Some True have "extract_callback env baseDir t st = Inl e"
          by (simp add: extract_callback_cases)
        with Some True Inl show ?thesis by (simp add: List.map_filter_simps)
      next
        case (Inr l)
        with Some True have "extract_callback env baseDir t st = Inr (st\<lparr>links := links st @ [l]\<rparr>)"
          by (simp add: extract_callback_cases)
        with Some True Inr Cons.IH [of "st\<lparr>links := links st @ [l]\<rparr>"] show ?thesis
          by (simp add: List.map_filter_simps)
      qed
    qed
  qed
qed

lemma fold_extract_counts:
  "fold_throwing (extract_callback env baseDir) toks st = Inr st' \<Longrightarrow>
   urlCount st' = urlCount st
      + length (filter (\<lambda>t. classify t = UrlTarget) (List.map_filter raw_target toks)) \<and>
   unsupportedCount st' = unsupportedCount st
      + length (filter (\<lambda>t. classify t = AnchorTarget \<or> classify t = MailtoTarget \<or>
                             classify t = ProtocolTarget) (List.map_filter raw_target toks))"
proof (induction toks arbitrary: st)
  case Nil
  then show ?case by (simp add: List.map_filter_simps)
next
  case (Cons t toks)
  from Cons.prems obtain s1 where
    s1: "extract_callback env baseDir t st = Inr s1"
    and rest: "fold_throwing (extract_callback env baseDir) toks s1 = Inr st'"
    by (auto split: sum.splits)
  note IH = Cons.IH [OF rest]
  show ?case
  proof (cases "raw_target t")
    case None
    with s1 have "s1 = st" by (simp add: extract_callback_cases)
    with IH None show ?thesis by (simp add: List.map_filter_simps)
  next
    case (Some h)
    show ?thesis
    proof (cases "classify h")
      case FileTarget
      with s1 Some obtain l where "s1 = st\<lparr>links := links st @ [l]\<rparr>"
        by (auto simp: extract_callback_cases split: sum.splits)
      with IH Some FileTarget show ?thesis by (simp add: List.map_filter_simps)
    next
      case UrlTarget
      with s1 Some have "s1 = st\<lparr>urlCount := urlCount st + 1\<rparr>"
        by (simp add: extract_callback_cases)
      with IH Some UrlTarget show ?thesis by (simp add: List.map_filter_simps)
    next
      case AnchorTarget
      with s1 Some have "s1 = st\<lparr>unsupportedCount := unsupportedCount st + 1\<rparr>"
        by (simp add: extract_callback_cases)
      with IH Some AnchorTarget show ?thesis by (simp add: List.map_filter_simps)
    next
      case MailtoTarget
      with s1 Some have "s1 = st\<lparr>unsupportedCount := unsupportedCount st + 1\<rparr>"
        by (simp add: extract_callback_cases)
      with IH Some MailtoTarget show ?thesis by (simp add: List.map_filter_simps)
    next
      case ProtocolTarget
      with s1 Some have "s1 = st\<lparr>unsupportedCount := unsupportedCount st + 1\<rparr>"
        by (simp add: extract_callback_cases)
      with IH Some ProtocolTarget show ?thesis by (simp add: List.map_filter_simps)
    qed
  qed
qed

lemma class_partition:
  "length ts =
     length (filter (\<lambda>t. classify t = FileTarget) ts)
     + length (filter (\<lambda>t. classify t = UrlTarget) ts)
     + length (filter (\<lambda>t. classify t = AnchorTarget \<or> classify t = MailtoTarget \<or>
                            classify t = ProtocolTarget) ts)"
proof (induction ts)
  case Nil
  show ?case by simp
next
  case (Cons t ts)
  then show ?case by (cases "classify t") simp_all
qed

text \<open>
  C2 (as amended). The raw targets of a document are the non-empty \<^verbatim>\<open>href\<close> or
  \<^verbatim>\<open>src\<close> values of its link and image tokens, enclosing angle brackets removed; a token
  whose target is empty contributes nothing. Every raw target falls into exactly one of the
  five classes, and the three variables of the extractor count them class by class: a URL
  target only raises \<^verbatim>\<open>urlCount\<close>, an anchor, mailto or protocol target only raises
  \<^verbatim>\<open>unsupportedCount\<close>, and only a file target adds an entry to the output. Extraction
  returns exactly when every file target is an absolute path or can be percent-decoded, and
  the sequence it returns holds exactly one entry for every file target, in encounter order
  and without deduplication.
\<close>

theorem targets_classified:
  "((\<exists>ls. extractMarkdownLinks env text baseDir = Inr ls) =
      (\<forall>t \<in> set (file_targets (md_parse env text)).
         isAbsolute t \<or> (\<exists>d. decodeURIComponent t = Inr d))) \<and>
   (\<forall>st. extract_walk env text baseDir = Inr st \<longrightarrow>
      extractMarkdownLinks env text baseDir = Inr (links st) \<and>
      list_all2 (\<lambda>t l. normalizeLink env t baseDir = Inr l)
        (file_targets (md_parse env text)) (links st) \<and>
      urlCount st = length (filter (\<lambda>t. classify t = UrlTarget) (raw_targets (md_parse env text))) \<and>
      unsupportedCount st =
        length (filter (\<lambda>t. classify t = AnchorTarget \<or> classify t = MailtoTarget \<or>
                              classify t = ProtocolTarget) (raw_targets (md_parse env text))) \<and>
      length (raw_targets (md_parse env text)) =
        length (links st) + urlCount st + unsupportedCount st)"
proof (intro conjI allI impI)
  have "(\<exists>ls. extractMarkdownLinks env text baseDir = Inr ls) =
        (\<exists>st. fold_throwing (extract_callback env baseDir) (flatten_tokens (md_parse env text))
                 \<lparr>links = [], urlCount = 0, unsupportedCount = 0\<rparr> = Inr st)"
    by (auto simp: extractMarkdownLinks_def extract_walk_def walkTokens_flatten split: sum.splits)
  also have "\<dots> = (\<forall>t \<in> set (file_targets (md_parse env text)).
                      \<exists>l. normalizeLink env t baseDir = Inr l)"
    unfolding fold_extract_returns by (simp add: file_targets_def raw_targets_def)
  also have "\<dots> = (\<forall>t \<in> set (file_targets (md_parse env text)).
                      isAbsolute t \<or> (\<exists>d. decodeURIComponent t = Inr d))"
  proof (rule ball_cong [OF refl])
    fix t assume "t \<in> set (file_targets (md_parse env text))"
    then have "\<not> isUrlLink t"
      by (simp add: file_targets_def classify_file isUrlLink_def)
    then show "(\<exists>l. normalizeLink env t baseDir = Inr l) =
               (isAbsolute t \<or> (\<exists>d. decodeURIComponent t = Inr d))"
      by (simp add: normalizeLink_returns)
  qed
  finally show "(\<exists>ls. extractMarkdownLinks env text baseDir = Inr ls) =
      (\<forall>t \<in> set (file_targets (md_parse env text)).
         isAbsolute t \<or> (\<exists>d. decodeURIComponent t = Inr d))" .
next
  fix st assume w: "extract_walk env text baseDir = Inr st"
  then show e: "extractMarkdownLinks env text baseDir = Inr (links st)"
    by (simp add: extractMarkdownLinks_def)
  from e show l: "list_all2 (\<lambda>t l. normalizeLink env t baseDir = Inr l)
        (file_targets (md_parse env text)) (links st)"
    by (rule extractMarkdownLinks_file_targets)
  from w have f: "fold_throwing (extract_callback env baseDir) (flatten_tokens (md_parse env text))
                 \<lparr>links = [], urlCount = 0, unsupportedCount = 0\<rparr> = Inr st"
    by (simp add: extract_walk_def walkTokens_flatten)
  from fold_extract_counts [OF f]
  show u: "urlCount st = length (filter (\<lambda>t. classify t = UrlTarget) (raw_targets (md_parse env text)))"
    and n: "unsupportedCount st =
        length (filter (\<lambda>t. classify t = AnchorTarget \<or> classify t = MailtoTarget \<or>
                              classify t = ProtocolTarget) (raw_targets (md_parse env text)))"
    by (simp_all add: raw_targets_def)
  from l have "length (links st) = length (file_targets (md_parse env text))"
    by (simp add: list_all2_lengthD)
  with u n class_partition [of "raw_targets (md_parse env text)"]
  show "length (raw_targets (md_parse env text)) =
        length (links st) + urlCount st + unsupportedCount st"
    by (simp add: file_targets_def)
qed

theorem targets_classified_witness:
  "extractMarkdownLinks (example_env (\<lambda>_. scenario1_tokens) (\<lambda>_. None))
       ''[link](https://example.com) ![image](image.png) [relative](../file.md)'' ''/home/user/docs''
     = Inr [''/home/user/docs/image.png'', ''/home/user/file.md''] \<and>
   raw_targets scenario1_tokens = [''https://example.com'', ''image.png'', ''../file.md''] \<and>
   list_all2 (\<lambda>t l. normalizeLink (example_env (\<lambda>_. scenario1_tokens) (\<lambda>_. None)) t ''/home/user/docs'' = Inr l)
     (file_targets scenario1_tokens) [''/home/user/docs/image.png'', ''/home/user/file.md'']"
proof -
  let ?env = "example_env (\<lambda>_. scenario1_tokens) (\<lambda>_. None) :: unit env"
  let ?doc = "''[link](https://example.com) ![image](image.png) [relative](../file.md)''"
  have w: "extract_walk ?env ?doc ''/home/user/docs''
             = Inr \<lparr>links = [''/home/user/docs/image.png'', ''/home/user/file.md''],
                    urlCount = 1, unsupportedCount = 0\<rparr>"
    by code_simp
  have p: "md_parse ?env ?doc = scenario1_tokens"
    by (simp add: example_env_def)
  have r: "raw_targets scenario1_tokens = [''https://example.com'', ''image.png'', ''../file.md'']"
    by code_simp
  from targets_classified [of ?env ?doc "''/home/user/docs''"] w
  have "extractMarkdownLinks ?env ?doc ''/home/user/docs''
          = Inr [''/home/user/docs/image.png'', ''/home/user/file.md'']"
    and "list_all2 (\<lambda>t l. normalizeLink ?env t ''/home/user/docs'' = Inr l)
           (file_targets (md_parse ?env ?doc)) [''/home/user/docs/image.png'', ''/home/user/file.md'']"
    by auto
  with r p show ?thesis by simp
qed

text \<open>
  The claim as stated fails for an empty target: the link of \<^verbatim>\<open>[x]()\<close> has the target
  \<^verbatim>\<open>''\<close>, which begins with none of the excluded prefixes, and the test \<^verbatim>\<open>if (href)\<close>
  drops it.
\<close>

theorem empty_target_counterexample:
  "extractMarkdownLinks (example_env (\<lambda>_. paragraph_tokens (link_tokens [])) (\<lambda>_. None))
      ''[x]()'' ''/home/user/docs'' = Inr [] \<and>
   attrGet (hd (link_tokens [])) ''href'' = Some [] \<and>
   classify [] = FileTarget"
  by code_simp

subsection \<open>Broken-link detection\<close>

text \<open>
  C3. The broken-link check answers not-broken exactly when the filesystem state maps the
  path to a regular file or to a directory: a path that stats as a regular file is not
  broken, a path that stats as a directory is not broken, and every other outcome (any
  error thrown by stat, whatever its code, or an entry that is neither a regular file nor a
  directory) is broken.
\<close>

theorem isLinkBroken_exactly:
  "(\<not> isLinkBroken fs p) = (\<exists>st. fs p = Inr st \<and> (isFile st \<or> isDirectory st))"
  by (cases "fs p") (simp_all add: isLinkBroken_def)

subsection \<open>Exceptions\<close>

text \<open>
  C8. The claim is that no core operation lets an exception escape. For the document
  \<^verbatim>\<open>[x](%FF.md)\<close>, whose link has the target \<^verbatim>\<open>%FF.md\<close> (the octet \<^verbatim>\<open>FF\<close> starts no
  UTF-8 sequence), both \<^verbatim>\<open>extractMarkdownLinks\<close> and \<^verbatim>\<open>updateMarkdownLinks\<close> end with the
  \<^verbatim>\<open>URIError\<close> of \<^verbatim>\<open>decodeURIComponent\<close>.
\<close>

theorem undecodable_target_raises:
  "extractMarkdownLinks (example_env (\<lambda>_. paragraph_tokens (link_tokens ''%FF.md'')) (\<lambda>_. None))
      ''[x](%FF.md)'' ''/home/user/docs'' = Inl URIError \<and>
   updateMarkdownLinks (example_env (\<lambda>_. paragraph_tokens (link_tokens ''%FF.md'')) (\<lambda>_. None))
      ''[x](%FF.md)'' ''/old'' ''/new'' = Inl URIError"
  by code_simp

subsection \<open>Repair selection\<close>




subsection \<open>Rewriting\<close>

text \<open>
  C9. When the old and the new base directory are the same path, the markdown rewrite and
  the notebook rewrite both return their input text unchanged, for every content.
\<close>

theorem same_directory_noop:
  "updateMarkdownLinks env text d d = Inr text \<and> updateNotebookLinks env content d d = content"
  by (simp add: updateMarkdownLinks_def updateNotebookLinks_def)

subsection \<open>Notebooks\<close>

lemma array_join_lines:
  "line_strings xs = Some ls \<Longrightarrow> array_join env [] xs = Inr (concat ls)"
proof (induction xs arbitrary: ls)
  case Nil
  then show ?case by (simp add: line_strings_def)
next
  case (Cons x xs)
  from Cons.prems obtain s ls' where
    x: "x = JStr s" and ls': "line_strings xs = Some ls'" and ls: "ls = s # ls'"
    by (cases x) (auto simp: line_strings_def split: option.splits)
  have "xs = [] \<Longrightarrow> ls' = []"
    using ls' by (simp add: line_strings_def)
  with Cons.IH [OF ls'] x ls show ?case by auto
qed

lemma cell_view_props:
  assumes "cell_view c = Some (ty, ls)"
  shows "get_prop c ''cell_type'' = Inr (Some (JStr ty))"
    and "\<exists>xs. get_prop c ''source'' = Inr (Some (JArr xs)) \<and> line_strings xs = Some ls"
  using assms
  by (auto simp: cell_view_def get_prop_def split: json.splits option.splits)

lemma notebook_loop_view:
  "those (map cell_view cs) = Some cells \<Longrightarrow>
   list_all2 (\<lambda>c ls. extractMarkdownLinks env (concat (snd c)) baseDir = Inr ls)
     (filter (\<lambda>c. fst c = ''markdown'') cells) outs \<Longrightarrow>
   notebook_loop env baseDir cs acc = Inr (acc @ concat outs)"
proof (induction cs arbitrary: cells outs acc)
  case Nil
  then show ?case by simp
next
  case (Cons c cs)
  from Cons.prems(1) obtain ty ls cells' where
    c: "cell_view c = Some (ty, ls)" and cs: "those (map cell_view cs) = Some cells'"
    and cells: "cells = (ty, ls) # cells'"
    by (auto split: option.splits)
  from cell_view_props [OF c] obtain xs where
    ty: "get_prop c ''cell_type'' = Inr (Some (JStr ty))"
    and src: "get_prop c ''source'' = Inr (Some (JArr xs))"
    and xs: "line_strings xs = Some ls"
    by blast
  show ?case
  proof (cases "ty = ''markdown''")
    case False
    with Cons.prems(2) cells have
      "list_all2 (\<lambda>c ls. extractMarkdownLinks env (concat (snd c)) baseDir = Inr ls)
         (filter (\<lambda>c. fst c = ''markdown'') cells') outs"
      by simp
    from Cons.IH [OF cs this] ty False show ?thesis by simp
  next
    case True
    with Cons.prems(2) cells obtain out outs' where
      outs: "outs = out # outs'"
      and out: "extractMarkdownLinks env (concat ls) baseDir = Inr out"
      and rest: "list_all2 (\<lambda>c ls. extractMarkdownLinks env (concat (snd c)) baseDir = Inr ls)
         (filter (\<lambda>c. fst c = ''markdown'') cells') outs'"
      by (auto simp: list_all2_Cons1)
    have j: "source_join env (Some (JArr xs)) = Inr (concat ls)"
      using array_join_lines [OF xs] by (simp add: source_join_def)
    from Cons.IH [OF cs rest, of "acc @ out"] ty src j out True outs show ?thesis by simp
  qed
qed

lemma notebook_loop_extract_fails:
  "those (map cell_view cs) = Some cells \<Longrightarrow>
   \<exists>c \<in> set cells. fst c = ''markdown'' \<and> (\<exists>e. extractMarkdownLinks env (concat (snd c)) baseDir = Inl e) \<Longrightarrow>
   \<exists>e. notebook_loop env baseDir cs acc = Inl e"
proof (induction cs arbitrary: cells acc)
  case Nil
  then show ?case by simp
next
  case (Cons c cs)
  from Cons.prems(1) obtain ty ls cells' where
    c: "cell_view c = Some (ty, ls)" and cs: "those (map cell_view cs) = Some cells'"
    and cells: "cells = (ty, ls) # cells'"
    by (auto split: option.splits)
  from cell_view_props [OF c] obtain xs where
    ty: "get_prop c ''cell_type'' = Inr (Some (JStr ty))"
    and src: "get_prop c ''source'' = Inr (Some (JArr xs))"
    and xs: "line_strings xs = Some ls"
    by blast
  have j: "source_join env (Some (JArr xs)) = Inr (concat ls)"
    using array_join_lines [OF xs] by (simp add: source_join_def)
  show ?case
  proof (cases "ty = ''markdown'' \<and> (\<exists>e. extractMarkdownLinks env (concat ls) baseDir = Inl e)")
    case True
    with ty src j show ?thesis by auto
  next
    case False
    with Cons.prems(2) cells have
      later: "\<exists>c \<in> set cells'. fst c = ''markdown'' \<and>
                (\<exists>e. extractMarkdownLinks env (concat (snd c)) baseDir = Inl e)"
      by auto
    show ?thesis
    proof (cases "ty = ''markdown''")
      case False
      with Cons.IH [OF cs later, of acc] ty show ?thesis by simp
    next
      case True
      with \<open>\<not> (ty = ''markdown'' \<and> (\<exists>e. extractMarkdownLinks env (concat ls) baseDir = Inl e))\<close>
      obtain out where "extractMarkdownLinks env (concat ls) baseDir = Inr out"
        by (cases "extractMarkdownLinks env (concat ls) baseDir") auto
      with Cons.IH [OF cs later, of "acc @ out"] ty src j True show ?thesis by simp
    qed
  qed
qed

lemma notebook_loop_unreadable:
  "\<exists>c \<in> set cs. unreadable_cell c \<Longrightarrow> \<exists>e. notebook_loop env baseDir cs acc = Inl e"
proof (induction cs arbitrary: acc)
  case Nil
  then show ?case by simp
next
  case (Cons c cs)
  show ?case
  proof (cases "unreadable_cell c")
    case True
    then show ?thesis
      by (cases c)
         (auto simp: unreadable_cell_def get_prop_def source_join_def
               split: option.splits json.splits)
  next
    case False
    with Cons.prems have "\<exists>c \<in> set cs. unreadable_cell c" by simp
    from Cons.IH [OF this] show ?thesis
      by (auto split: sum.splits)
  qed
qed

lemma notebook_view_cells:
  assumes "notebook_view data = Some cells"
  shows "\<exists>cs. cells_or_empty env data = Inr (JArr cs) \<and> those (map cell_view cs) = Some cells"
  using assms
  by (auto simp: notebook_view_def cells_or_empty_def get_prop_def truthy_def
           split: json.splits option.splits)

text \<open>
  C7 (as amended). The notebook extractor never raises: it returns a sequence for every
  input. If the content is not valid JSON the result is empty. If it parses as the
  expected structure (a list of cells, each with a type tag and a list-of-lines source) and
  the Link Extractor returns on the joined lines of every markdown cell, the result is
  exactly the concatenation, in document order, of its outputs on those cells, the lines
  being joined without separator; cells of any other type contribute nothing. If the Link
  Extractor throws on one of the markdown cells, the result is empty. The result is also
  empty when the parsed value is \<^verbatim>\<open>null\<close>, or when a cell of its cell list is \<^verbatim>\<open>null\<close> or
  is a markdown cell whose source is missing or is not an array.
\<close>

theorem notebook_extraction:
  "(JSON_parse env content = None \<longrightarrow> extractLinksFromNotebook env content baseDir = []) \<and>
   (\<forall>data cells outs.
      JSON_parse env content = Some data \<and> notebook_view data = Some cells \<and>
      list_all2 (\<lambda>c ls. extractMarkdownLinks env (concat (snd c)) baseDir = Inr ls)
        (filter (\<lambda>c. fst c = ''markdown'') cells) outs \<longrightarrow>
      extractLinksFromNotebook env content baseDir = concat outs) \<and>
   (\<forall>data cells.
      JSON_parse env content = Some data \<and> notebook_view data = Some cells \<and>
      (\<exists>c \<in> set cells. fst c = ''markdown'' \<and>
         (\<exists>e. extractMarkdownLinks env (concat (snd c)) baseDir = Inl e)) \<longrightarrow>
      extractLinksFromNotebook env content baseDir = []) \<and>
   (JSON_parse env content = Some JNull \<longrightarrow> extractLinksFromNotebook env content baseDir = []) \<and>
   (\<forall>kvs cs.
      JSON_parse env content = Some (JObj kvs) \<and> map_of kvs ''cells'' = Some (JArr cs) \<and>
      (\<exists>c \<in> set cs. unreadable_cell c) \<longrightarrow>
      extractLinksFromNotebook env content baseDir = [])"
proof (intro conjI allI impI)
  assume "JSON_parse env content = None"
  then show "extractLinksFromNotebook env content baseDir = []"
    by (simp add: extractLinksFromNotebook_def notebook_try_def)
next
  fix data cells outs
  assume a: "JSON_parse env content = Some data \<and> notebook_view data = Some cells \<and>
      list_all2 (\<lambda>c ls. extractMarkdownLinks env (concat (snd c)) baseDir = Inr ls)
        (filter (\<lambda>c. fst c = ''markdown'') cells) outs"
  then obtain cs where cs: "cells_or_empty env data = Inr (JArr cs)"
    "those (map cell_view cs) = Some cells"
    using notebook_view_cells by blast
  from a have "notebook_loop env baseDir cs [] = Inr ([] @ concat outs)"
    by (intro notebook_loop_view [OF cs(2)]) simp
  with a cs(1) show "extractLinksFromNotebook env content baseDir = concat outs"
    by (simp add: extractLinksFromNotebook_def notebook_try_def iterate_def)
next
  fix data cells
  assume a: "JSON_parse env content = Some data \<and> notebook_view data = Some cells \<and>
      (\<exists>c \<in> set cells. fst c = ''markdown'' \<and>
         (\<exists>e. extractMarkdownLinks env (concat (snd c)) baseDir = Inl e))"
  then obtain cs where cs: "cells_or_empty env data = Inr (JArr cs)"
    "those (map cell_view cs) = Some cells"
    using notebook_view_cells by blast
  from a have "\<exists>e. notebook_loop env baseDir cs [] = Inl e"
    by (intro notebook_loop_extract_fails [OF cs(2)]) simp
  then obtain e where "notebook_loop env baseDir cs [] = Inl e" ..
  with a cs(1) show "extractLinksFromNotebook env content baseDir = []"
    by (simp add: extractLinksFromNotebook_def notebook_try_def iterate_def)
next
  assume "JSON_parse env content = Some JNull"
  then show "extractLinksFromNotebook env content baseDir = []"
    by (simp add: extractLinksFromNotebook_def notebook_try_def cells_or_empty_def get_prop_def)
next
  fix kvs cs
  assume a: "JSON_parse env content = Some (JObj kvs) \<and> map_of kvs ''cells'' = Some (JArr cs) \<and>
      (\<exists>c \<in> set cs. unreadable_cell c)"
  then have "\<exists>e. notebook_loop env baseDir cs [] = Inl e"
    by (intro notebook_loop_unreadable) simp
  then obtain e where "notebook_loop env baseDir cs [] = Inl e" ..
  with a show "extractLinksFromNotebook env content baseDir = []"
    by (simp add: extractLinksFromNotebook_def notebook_try_def cells_or_empty_def get_prop_def
          truthy_def iterate_def)
qed

theorem notebook_extraction_witness:
  \<open>extractLinksFromNotebook (example_env notebook_md (\<lambda>_. Some scenario3_notebook))
      ''{"cells":[{"cell_type":"markdown","source":["[link](file.md)"]},{"cell_type":"code","source":["print(1)"]}]}''
      ''/home/user/docs'' = [''/home/user/docs/file.md''] \<and>
   extractLinksFromNotebook (example_env notebook_md (\<lambda>_. None))
      ''{"cells": [{"cell_type": "markdown", "source": ["broken"'' ''/home/user/docs'' = [] \<and>
   extractLinksFromNotebook (example_env notebook_md (\<lambda>_. Some string_source_notebook))
      ''{"cells":[{"cell_type":"markdown","source":"[link](file.md)"}]}'' ''/home/user/docs'' = []\<close>
proof -
  let ?env = "example_env notebook_md (\<lambda>_. Some scenario3_notebook)"
  let ?c = \<open>''{"cells":[{"cell_type":"markdown","source":["[link](file.md)"]},{"cell_type":"code","source":["print(1)"]}]}''\<close>
  have p: "JSON_parse ?env ?c = Some scenario3_notebook"
    by (simp add: example_env_def)
  have v: "notebook_view scenario3_notebook
             = Some [(''markdown'', [''[link](file.md)'']), (''code'', [''print(1)''])]"
    by code_simp
  have x: "extractMarkdownLinks ?env (concat [''[link](file.md)'']) ''/home/user/docs''
             = Inr [''/home/user/docs/file.md'']"
    by code_simp
  have l: "list_all2 (\<lambda>c ls. extractMarkdownLinks ?env (concat (snd c)) ''/home/user/docs'' = Inr ls)
             (filter (\<lambda>c. fst c = ''markdown'')
                [(''markdown'', [''[link](file.md)'']), (''code'', [''print(1)''])])
             [[''/home/user/docs/file.md'']]"
    using x by simp
  have a: "extractLinksFromNotebook ?env ?c ''/home/user/docs'' = concat [[''/home/user/docs/file.md'']]"
    using notebook_extraction [of ?env ?c "''/home/user/docs''"] p v l by blast
  let ?env0 = "example_env notebook_md (\<lambda>_. None) :: unit env"
  let ?bad = \<open>''{"cells": [{"cell_type": "markdown", "source": ["broken"''\<close>
  have p0: "JSON_parse ?env0 ?bad = None"
    by (simp add: example_env_def)
  have b: "extractLinksFromNotebook ?env0 ?bad ''/home/user/docs'' = []"
    using notebook_extraction [of ?env0 ?bad "''/home/user/docs''"] p0 by blast
  let ?env1 = "example_env notebook_md (\<lambda>_. Some string_source_notebook)"
  let ?s = \<open>''{"cells":[{"cell_type":"markdown","source":"[link](file.md)"}]}''\<close>
  have p1: "JSON_parse ?env1 ?s = Some (JObj [(''cells'',
            JArr [JObj [(''cell_type'', JStr ''markdown''), (''source'', JStr ''[link](file.md)'')]])])"
    by (simp add: example_env_def string_source_notebook_def)
  have u: "\<exists>c \<in> set [JObj [(''cell_type'', JStr ''markdown''), (''source'', JStr ''[link](file.md)'')] :: unit json].
             unreadable_cell c"
    by (simp add: unreadable_cell_def)
  have c: "extractLinksFromNotebook ?env1 ?s ''/home/user/docs'' = []"
    using notebook_extraction [of ?env1 ?s "''/home/user/docs''"] p1 u by simp
  from a b c show ?thesis by simp
qed

text \<open>
  The claim as stated fails for a document that is not of the expected structure and is
  read all the same: a cell list that holds a markdown cell and a string that is no cell
  yields the link of the markdown cell, not the empty sequence.
\<close>

theorem stray_cell_counterexample:
  \<open>JSON_parse (example_env notebook_md (\<lambda>_. Some stray_notebook))
      ''{"cells":[{"cell_type":"markdown","source":["[link](file.md)"]},"stray"]}''
     = Some stray_notebook \<and>
   notebook_view stray_notebook = None \<and>
   extractLinksFromNotebook (example_env notebook_md (\<lambda>_. Some stray_notebook))
      ''{"cells":[{"cell_type":"markdown","source":["[link](file.md)"]},"stray"]}''
      ''/home/user/docs'' = [''/home/user/docs/file.md'']\<close>
  by code_simp

subsection \<open>Rewriting notebooks\<close>

lemma map_of_set_same:
  "map_of kvs k = Some v0 \<Longrightarrow>
   map_of (map (\<lambda>(k', v'). if k' = k then (k', v) else (k', v')) kvs) k = Some v"
  by (induction kvs) (auto split: if_splits)

lemma map_of_set_other:
  "k2 \<noteq> k \<Longrightarrow>
   map_of (map (\<lambda>(k', v'). if k' = k then (k', v) else (k', v')) kvs) k2 = map_of kvs k2"
  by (induction kvs) auto

lemma line_strings_map:
  "line_strings (map (\<lambda>l. JStr (f l)) ls) = Some (map f ls)"
  by (induction ls) (simp_all add: line_strings_def)

lemma line_strings_eq:
  "line_strings xs = Some ls \<Longrightarrow> xs = map JStr ls"
proof (induction xs arbitrary: ls)
  case Nil
  then show ?case by (simp add: line_strings_def)
next
  case (Cons x xs)
  from Cons.prems obtain s ls' where
    "x = JStr s" "line_strings xs = Some ls'" "ls = s # ls'"
    by (cases x) (auto simp: line_strings_def split: option.splits)
  with Cons.IH show ?case by simp
qed

lemma update_lines:
  "\<forall>l \<in> set ls. updateMarkdownLinks env l oldDir newDir = Inr (f l) \<Longrightarrow>
   map_throwing (update_line env oldDir newDir) (map JStr ls) = Inr (map (\<lambda>l. JStr (f l)) ls)"
  by (induction ls) (simp_all add: update_line_def)

lemma lines_changed:
  "list_ex (\<lambda>(l, l0). l \<noteq> l0) (zip (map (\<lambda>l. JStr (f l)) ls) (map JStr ls)) = (map f ls \<noteq> ls)"
  by (induction ls) auto

lemma update_cell_view:
  assumes "cell_view c = Some (ty, ls)"
    and "ty = ''markdown'' \<longrightarrow> (\<forall>l \<in> set ls. updateMarkdownLinks env l oldDir newDir = Inr (f l))"
  shows "update_cell env oldDir newDir c = Inr (rewrite_cell f c)"
proof -
  from cell_view_props [OF assms(1)] obtain xs where
    ty: "get_prop c ''cell_type'' = Inr (Some (JStr ty))"
    and src: "get_prop c ''source'' = Inr (Some (JArr xs))"
    and xs: "line_strings xs = Some ls"
    by blast
  note xs' = line_strings_eq [OF xs]
  show ?thesis
  proof (cases "ty = ''markdown''")
    case False
    with ty assms(1) show ?thesis by (simp add: update_cell_def rewrite_cell_def)
  next
    case True
    with assms(2) have "map_throwing (update_line env oldDir newDir) (map JStr ls)
                          = Inr (map (\<lambda>l. JStr (f l)) ls)"
      by (intro update_lines) simp
    with True ty src xs' assms(1) show ?thesis
      by (simp add: update_cell_def rewrite_cell_def truthy_def lines_changed)
  qed
qed

lemma update_cells_view:
  "those (map cell_view cs) = Some cells \<Longrightarrow>
   \<forall>c \<in> set cells. fst c = ''markdown'' \<longrightarrow>
      (\<forall>l \<in> set (snd c). updateMarkdownLinks env l oldDir newDir = Inr (f l)) \<Longrightarrow>
   map_throwing (update_cell env oldDir newDir) cs = Inr (map (rewrite_cell f) cs)"
proof (induction cs arbitrary: cells)
  case Nil
  then show ?case by simp
next
  case (Cons c cs)
  from Cons.prems(1) obtain ty ls cells' where
    c: "cell_view c = Some (ty, ls)" and cs: "those (map cell_view cs) = Some cells'"
    and cells: "cells = (ty, ls) # cells'"
    by (auto split: option.splits)
  from Cons.prems(2) cells have
    h: "ty = ''markdown'' \<longrightarrow> (\<forall>l \<in> set ls. updateMarkdownLinks env l oldDir newDir = Inr (f l))"
    and t: "\<forall>c \<in> set cells'. fst c = ''markdown'' \<longrightarrow>
      (\<forall>l \<in> set (snd c). updateMarkdownLinks env l oldDir newDir = Inr (f l))"
    by simp_all
  from update_cell_view [OF c h] Cons.IH [OF cs t] show ?case by simp
qed

lemma cell_view_rewrite:
  assumes "cell_view c = Some (ty, ls)"
  shows "cell_view (rewrite_cell f c) = Some (ty, if ty = ''markdown'' then map f ls else ls)"
proof (cases "ty = ''markdown'' \<and> map f ls \<noteq> ls")
  case False
  with assms show ?thesis by (auto simp: rewrite_cell_def)
next
  case True
  from assms obtain kvs xs where c: "c = JObj kvs"
    and ct: "map_of kvs ''cell_type'' = Some (JStr ty)"
    and so: "map_of kvs ''source'' = Some (JArr xs)"
    by (auto simp: cell_view_def split: json.splits option.splits)
  have "cell_view (set_prop c ''source'' (JArr (map (\<lambda>l. JStr (f l)) ls))) = Some (ty, map f ls)"
    using ct so unfolding c
    by (simp add: cell_view_def set_prop_def map_of_set_same [OF so] map_of_set_other line_strings_map)
  with True assms show ?thesis by (simp add: rewrite_cell_def)
qed

lemma those_rewrite:
  "those (map cell_view cs) = Some cells \<Longrightarrow>
   those (map cell_view (map (rewrite_cell f) cs))
     = Some (map (\<lambda>c. (fst c, if fst c = ''markdown'' then map f (snd c) else snd c)) cells)"
proof (induction cs arbitrary: cells)
  case Nil
  then show ?case by simp
next
  case (Cons c cs)
  from Cons.prems obtain ty ls cells' where
    c: "cell_view c = Some (ty, ls)" and cs: "those (map cell_view cs) = Some cells'"
    and cells: "cells = (ty, ls) # cells'"
    by (auto split: option.splits)
  from cell_view_rewrite [OF c, of f] Cons.IH [OF cs] cells show ?case by simp
qed

text \<open>
  C10 (as amended). For distinct old and new base directories and a notebook content that
  parses as JSON into the expected structure (a list of cells, each with a type tag and a
  list-of-lines source) and on whose markdown lines the markdown rewrite returns,
  \<^verbatim>\<open>updateNotebookLinks\<close> returns the indent-width-1 JSON serialization of the parsed input
  with the source lines of each markdown cell rewritten line by line: the rewritten document
  has the same cells in the same order, every markdown cell with as many lines as before,
  the other cells with the lines they had, and every other field with the value it had.
  The returned text can differ from the input text even when no link is rewritten: for
  the content \<^verbatim>\<open>{"cells":[]}\<close> it is the serialization of the unchanged value, spread
  over three lines.
\<close>

theorem notebook_rewrite:
  \<open>(oldDir \<noteq> newDir \<and> JSON_parse env content = Some data \<and> notebook_view data = Some cells \<and>
    (\<forall>c \<in> set cells. fst c = ''markdown'' \<longrightarrow>
       (\<forall>l \<in> set (snd c). updateMarkdownLinks env l oldDir newDir = Inr (f l))) \<longrightarrow>
      updateNotebookLinks env content oldDir newDir = JSON_stringify1 env (rewrite_notebook f data) \<and>
      notebook_view (rewrite_notebook f data) =
        Some (map (\<lambda>c. (fst c, if fst c = ''markdown'' then map f (snd c) else snd c)) cells) \<and>
      (\<forall>k. k \<noteq> ''cells'' \<longrightarrow> get_prop (rewrite_notebook f data) k = get_prop data k)) \<and>
   updateNotebookLinks (example_env (\<lambda>_. []) (\<lambda>_. Some empty_notebook)) ''{"cells":[]}'' ''/old'' ''/new''
     = JSON_stringify1 (example_env (\<lambda>_. []) (\<lambda>_. Some empty_notebook)) empty_notebook \<and>
   updateNotebookLinks (example_env (\<lambda>_. []) (\<lambda>_. Some empty_notebook)) ''{"cells":[]}'' ''/old'' ''/new''
     \<noteq> ''{"cells":[]}''\<close>
proof (intro conjI impI)
  assume a: "oldDir \<noteq> newDir \<and> JSON_parse env content = Some data \<and> notebook_view data = Some cells \<and>
    (\<forall>c \<in> set cells. fst c = ''markdown'' \<longrightarrow>
       (\<forall>l \<in> set (snd c). updateMarkdownLinks env l oldDir newDir = Inr (f l)))"
  then obtain kvs cs where data: "data = JObj kvs"
    and cl: "map_of kvs ''cells'' = Some (JArr cs)"
    and view: "those (map cell_view cs) = Some cells"
    by (auto simp: notebook_view_def split: json.splits option.splits)
  have ce: "cells_or_empty env data = Inr (JArr cs)"
    using data cl by (simp add: cells_or_empty_def get_prop_def truthy_def)
  have up: "map_throwing (update_cell env oldDir newDir) cs = Inr (map (rewrite_cell f) cs)"
    using view a by (intro update_cells_view) auto
  have rw: "rewrite_notebook f data =
              (if cs = [] then data else set_prop data ''cells'' (JArr (map (rewrite_cell f) cs)))"
    using data cl by (cases cs) (simp_all add: rewrite_notebook_def)
  from a ce up rw
  show "updateNotebookLinks env content oldDir newDir = JSON_stringify1 env (rewrite_notebook f data)"
    by (simp add: updateNotebookLinks_def update_notebook_try_def iterate_def)
  show "notebook_view (rewrite_notebook f data) =
        Some (map (\<lambda>c. (fst c, if fst c = ''markdown'' then map f (snd c) else snd c)) cells)"
  proof (cases "cs = []")
    case True
    with view rw a show ?thesis by simp
  next
    case False
    have "notebook_view (set_prop data ''cells'' (JArr (map (rewrite_cell f) cs)))
            = those (map cell_view (map (rewrite_cell f) cs))"
      unfolding data by (simp add: notebook_view_def set_prop_def map_of_set_same [OF cl])
    with False rw those_rewrite [OF view, of f] show ?thesis by simp
  qed
  show "\<forall>k. k \<noteq> ''cells'' \<longrightarrow> get_prop (rewrite_notebook f data) k = get_prop data k"
    unfolding rw by (simp add: data get_prop_def set_prop_def map_of_set_other)
next
  show \<open>updateNotebookLinks (example_env (\<lambda>_. []) (\<lambda>_. Some empty_notebook)) ''{"cells":[]}'' ''/old'' ''/new''
     = JSON_stringify1 (example_env (\<lambda>_. []) (\<lambda>_. Some empty_notebook)) empty_notebook\<close>
    by code_simp
  show \<open>updateNotebookLinks (example_env (\<lambda>_. []) (\<lambda>_. Some empty_notebook)) ''{"cells":[]}'' ''/old'' ''/new''
     \<noteq> ''{"cells":[]}''\<close>
    by code_simp
qed

theorem notebook_rewrite_witness:
  \<open>updateNotebookLinks (example_env notebook_md (\<lambda>_. Some scenario3_notebook))
      ''{"cells":[{"cell_type":"markdown","source":["[link](file.md)"]},{"cell_type":"code","source":["print(1)"]}]}''
      ''/old'' ''/new''
     = JSON_stringify1 (example_env notebook_md (\<lambda>_. Some scenario3_notebook))
         (JObj [(''cells'',
            JArr [JObj [(''cell_type'', JStr ''markdown''), (''source'', JArr [JStr ''[link](../old/file.md)''])],
                  JObj [(''cell_type'', JStr ''code''), (''source'', JArr [JStr ''print(1)''])]])])\<close>
proof -
  let ?env = "example_env notebook_md (\<lambda>_. Some scenario3_notebook)"
  let ?c = \<open>''{"cells":[{"cell_type":"markdown","source":["[link](file.md)"]},{"cell_type":"code","source":["print(1)"]}]}''\<close>
  let ?f = "\<lambda>l. if l = ''[link](file.md)'' then ''[link](../old/file.md)'' else l"
  have p: "JSON_parse ?env ?c = Some scenario3_notebook"
    by (simp add: example_env_def)
  have v: "notebook_view scenario3_notebook
             = Some [(''markdown'', [''[link](file.md)'']), (''code'', [''print(1)''])]"
    by code_simp
  have u: "updateMarkdownLinks ?env ''[link](file.md)'' ''/old'' ''/new'' = Inr ''[link](../old/file.md)''"
    by code_simp
  have h: "\<forall>c \<in> set [(''markdown'', [''[link](file.md)'']), (''code'', [''print(1)''])].
             fst c = ''markdown'' \<longrightarrow>
               (\<forall>l \<in> set (snd c). updateMarkdownLinks ?env l ''/old'' ''/new'' = Inr (?f l))"
    using u by simp
  have d: "''/old'' \<noteq> ''/new''" by simp
  have r: "rewrite_notebook ?f scenario3_notebook =
         (JObj [(''cells'',
            JArr [JObj [(''cell_type'', JStr ''markdown''), (''source'', JArr [JStr ''[link](../old/file.md)''])],
                  JObj [(''cell_type'', JStr ''code''), (''source'', JArr [JStr ''print(1)''])]])] :: unit json)"
    by code_simp
  from notebook_rewrite [of "''/old''" "''/new''" ?env ?c scenario3_notebook _ ?f] d p v h
  have "updateNotebookLinks ?env ?c ''/old'' ''/new'' = JSON_stringify1 ?env (rewrite_notebook ?f scenario3_notebook)"
    by blast
  then show ?thesis by (simp only: r)
qed

text \<open>
  The claim as stated fails for a content that parses as JSON and is a notebook whose
  markdown cell has a single string as its source (the notebook format allows it):
  \<^verbatim>\<open>cell.source.map\<close> is not a function, and the \<^verbatim>\<open>catch\<close> returns the content as it
  is, which is no indent-width-1 serialization, with the link not rewritten.
\<close>

theorem string_source_counterexample:
  \<open>JSON_parse (example_env notebook_md (\<lambda>_. Some string_source_notebook))
      ''{"cells":[{"cell_type":"markdown","source":"[link](file.md)"}]}'' = Some string_source_notebook \<and>
   updateNotebookLinks (example_env notebook_md (\<lambda>_. Some string_source_notebook))
      ''{"cells":[{"cell_type":"markdown","source":"[link](file.md)"}]}'' ''/old'' ''/new''
     = ''{"cells":[{"cell_type":"markdown","source":"[link](file.md)"}]}'' \<and>
   JSON_stringify1 (example_env notebook_md (\<lambda>_. Some string_source_notebook)) string_source_notebook
     \<noteq> ''{"cells":[{"cell_type":"markdown","source":"[link](file.md)"}]}'' \<and>
   JSON_stringify1 (example_env notebook_md (\<lambda>_. Some string_source_notebook))
      (JObj [(''cells'',
         JArr [JObj [(''cell_type'', JStr ''markdown''), (''source'', JStr ''[link](../old/file.md)'')]])])
     \<noteq> ''{"cells":[{"cell_type":"markdown","source":"[link](file.md)"}]}''\<close>
  by code_simp

subsection \<open>Candidate tiers\<close>













end
